theory Spec2Isabelle
  imports Main "HOL-Library.AList"
begin

section \<open>Configuration values\<close>

text \<open>
  The pool definitions, defaults and environment tables are parsed YAML: nested
  dictionaries, lists and scalars. A dictionary is an association list with string keys,
  in insertion order, as Python's \<^verbatim>\<open>dict\<close> keeps it. Floating-point scalars are
  outside the model.
\<close>

datatype json =
    JNull
  | JBool bool
  | JInt int
  | JStr string
  | JList "json list"
  | JDict "(string \<times> json) list"

type_synonym dict = "(string \<times> json) list"

text \<open>
  The ValueErrors: the three \<^verbatim>\<open>raise ValueError\<close> sites of
  \<^verbatim>\<open>_validate_instance_capacity\<close>, the one Python raises when a sequence has too
  few elements for a tuple assignment, and the one of \<^verbatim>\<open>str.format\<close> for an
  unbalanced brace. \<open>RuntimeError\<close> is the error of the resource collection for a
  second resource with an identifier it already holds. \<open>NotModelled\<close> marks the
  replacement fields of \<^verbatim>\<open>str.format\<close> that this model does not interpret.
\<close>

datatype value_error =
    CapacityOnInstanceType
  | CapacityInWorkerConfig
  | CapacityPerInstanceUnsupported
  | NotEnoughValuesToUnpack
  | BadFormatString

datatype error =
    KeyError string
  | ValueError value_error
  | TypeError
  | AttributeError
  | IndexError
  | ResolutionError string
  | RuntimeError
  | NotModelled

definition bindE :: "error + 'a \<Rightarrow> ('a \<Rightarrow> error + 'b) \<Rightarrow> error + 'b" where
  "bindE m f = (case m of Inl e \<Rightarrow> Inl e | Inr x \<Rightarrow> f x)"

fun mapE :: "('a \<Rightarrow> error + 'b) \<Rightarrow> 'a list \<Rightarrow> error + 'b list" where
  "mapE f [] = Inr []"
| "mapE f (x # xs) = bindE (f x) (\<lambda>y. bindE (mapE f xs) (\<lambda>ys. Inr (y # ys)))"

subsection \<open>Python's operations on these values\<close>

definition has_key :: "string \<Rightarrow> dict \<Rightarrow> bool" where
  "has_key k d = (map_of d k \<noteq> None)"

text \<open>\<^verbatim>\<open>d[k]\<close> on a dictionary.\<close>

definition dict_getitem :: "dict \<Rightarrow> string \<Rightarrow> error + json" where
  "dict_getitem d k = (case map_of d k of None \<Rightarrow> Inl (KeyError k) | Some v \<Rightarrow> Inr v)"

text \<open>\<^verbatim>\<open>d.get(k, default)\<close> on a dictionary.\<close>

definition dict_get :: "dict \<Rightarrow> string \<Rightarrow> json \<Rightarrow> json" where
  "dict_get d k dflt = (case map_of d k of None \<Rightarrow> dflt | Some v \<Rightarrow> v)"

text \<open>\<^verbatim>\<open>d.pop(k)\<close> and \<^verbatim>\<open>d.pop(k, default)\<close>: the value and the dictionary without the key.\<close>

definition dict_pop :: "dict \<Rightarrow> string \<Rightarrow> error + (json \<times> dict)" where
  "dict_pop d k =
     (case map_of d k of None \<Rightarrow> Inl (KeyError k) | Some v \<Rightarrow> Inr (v, AList.delete k d))"

definition dict_pop_default :: "dict \<Rightarrow> string \<Rightarrow> json \<Rightarrow> json \<times> dict" where
  "dict_pop_default d k dflt =
     (case map_of d k of None \<Rightarrow> (dflt, d) | Some v \<Rightarrow> (v, AList.delete k d))"

text \<open>
  The same on a value that is only expected to be a dictionary: \<^verbatim>\<open>x[k]\<close> on a list,
  a string or a scalar with a string key is a TypeError, \<^verbatim>\<open>x.get\<close> on them an
  AttributeError.
\<close>

definition py_getitem :: "json \<Rightarrow> string \<Rightarrow> error + json" where
  "py_getitem x k = (case x of JDict d \<Rightarrow> dict_getitem d k | _ \<Rightarrow> Inl TypeError)"

definition py_get :: "json \<Rightarrow> string \<Rightarrow> json \<Rightarrow> error + json" where
  "py_get x k dflt = (case x of JDict d \<Rightarrow> Inr (dict_get d k dflt) | _ \<Rightarrow> Inl AttributeError)"

text \<open>\<^verbatim>\<open>for x in xs\<close>: a list gives its elements, a dictionary its keys, a string its
  characters; a scalar is not iterable.\<close>

definition py_iter :: "json \<Rightarrow> error + json list" where
  "py_iter x =
     (case x of
        JList xs \<Rightarrow> Inr xs
      | JDict d \<Rightarrow> Inr (map (\<lambda>kv. JStr (fst kv)) d)
      | JStr s \<Rightarrow> Inr (map (\<lambda>c. JStr [c]) s)
      | _ \<Rightarrow> Inl TypeError)"

text \<open>\<^verbatim>\<open>t in s\<close> on two strings: \<open>t\<close> occurs in \<open>s\<close> as a contiguous run.\<close>

definition substring :: "string \<Rightarrow> string \<Rightarrow> bool" where
  "substring t s = list_ex (\<lambda>i. take (length t) (drop i s) = t) [0..<Suc (length s)]"

text \<open>
  \<^verbatim>\<open>x == y\<close>: a boolean equals the integer 0 or 1 it stands for; other values are
  compared structurally (so two dictionaries with the same items in another order, or
  lists that differ only by \<^verbatim>\<open>True\<close> against \<^verbatim>\<open>1\<close>, count as different here).
\<close>

definition py_eq :: "json \<Rightarrow> json \<Rightarrow> bool" where
  "py_eq x y =
     (case (x, y) of
        (JBool b, JInt n) \<Rightarrow> n = (if b then 1 else 0)
      | (JInt n, JBool b) \<Rightarrow> n = (if b then 1 else 0)
      | _ \<Rightarrow> x = y)"

text \<open>
  \<^verbatim>\<open>x in c\<close>: membership in a list, key membership in a dictionary (an unhashable
  \<open>x\<close> is a TypeError), substring test in a string (TypeError unless \<open>x\<close> is a string);
  a scalar \<open>c\<close> is a TypeError.
\<close>

definition py_in :: "json \<Rightarrow> json \<Rightarrow> error + bool" where
  "py_in x c =
     (case c of
        JList ys \<Rightarrow> Inr (list_ex (py_eq x) ys)
      | JDict d \<Rightarrow>
          (case x of
             JStr k \<Rightarrow> Inr (has_key k d)
           | JList _ \<Rightarrow> Inl TypeError
           | JDict _ \<Rightarrow> Inl TypeError
           | _ \<Rightarrow> Inr False)
      | JStr s \<Rightarrow> (case x of JStr t \<Rightarrow> Inr (substring t s) | _ \<Rightarrow> Inl TypeError)
      | _ \<Rightarrow> Inl TypeError)"

text \<open>\<^verbatim>\<open>x[k] = v\<close>: on a dictionary the key is replaced in place or appended; a list,
  a string or a scalar takes no string key.\<close>

definition py_setitem :: "json \<Rightarrow> string \<Rightarrow> json \<Rightarrow> error + json" where
  "py_setitem x k v = (case x of JDict d \<Rightarrow> Inr (JDict (AList.update k v d)) | _ \<Rightarrow> Inl TypeError)"

text \<open>\<^verbatim>\<open>d.update(x)\<close> with a dictionary \<open>x\<close>, whose items are stored in their order.
  (Python also accepts a sequence of key-value pairs; that is a TypeError here.)\<close>

definition dict_update :: "dict \<Rightarrow> json \<Rightarrow> error + dict" where
  "dict_update d x =
     (case x of
        JDict u \<Rightarrow> Inr (foldl (\<lambda>acc kv. AList.update (fst kv) (snd kv) acc) d u)
      | _ \<Rightarrow> Inl TypeError)"

text \<open>The truth value of \<^verbatim>\<open>if x:\<close>.\<close>

definition truthy :: "json \<Rightarrow> bool" where
  "truthy x =
     (case x of
        JNull \<Rightarrow> False
      | JBool b \<Rightarrow> b
      | JInt n \<Rightarrow> n \<noteq> 0
      | JStr s \<Rightarrow> s \<noteq> []
      | JList xs \<Rightarrow> xs \<noteq> []
      | JDict d \<Rightarrow> d \<noteq> [])"

text \<open>\<^verbatim>\<open>s.split(".", 1)\<close>: one piece when there is no dot, else the text before the
  first dot and the text after it.\<close>

definition split_dot :: "string \<Rightarrow> string list" where
  "split_dot s =
     (if CHR ''.'' \<in> set s
      then [takeWhile (\<lambda>c. c \<noteq> CHR ''.'') s, tl (dropWhile (\<lambda>c. c \<noteq> CHR ''.'') s)]
      else [s])"

text \<open>
  \<^verbatim>\<open>str(x)\<close>, as f-strings and \<^verbatim>\<open>str.format\<close> apply it: a string is itself,
  an integer its decimal digits, and a container the \<^verbatim>\<open>repr\<close> of its parts. (The
  \<^verbatim>\<open>repr\<close> of a string is written with single quotes and no escapes, which is
  Python's for strings without quotes, backslashes or control characters.)
\<close>

fun digits :: "nat \<Rightarrow> string" where
  "digits n =
     (if n < 10 then [char_of (48 + n)] else digits (n div 10) @ [char_of (48 + n mod 10)])"

definition str_int :: "int \<Rightarrow> string" where
  "str_int i = (if i < 0 then CHR ''-'' # digits (nat (- i)) else digits (nat i))"

fun py_repr :: "json \<Rightarrow> string"
  and repr_list :: "json list \<Rightarrow> string"
  and repr_items :: "dict \<Rightarrow> string" where
  "py_repr JNull = ''None''"
| "py_repr (JBool b) = (if b then ''True'' else ''False'')"
| "py_repr (JInt i) = str_int i"
| "py_repr (JStr s) = [CHR 39] @ s @ [CHR 39]"
| "py_repr (JList xs) = ''['' @ repr_list xs @ '']''"
| "py_repr (JDict d) = ''{'' @ repr_items d @ ''}''"
| "repr_list [] = []"
| "repr_list (x # xs) = py_repr x @ (if xs = [] then [] else '', '' @ repr_list xs)"
| "repr_items [] = []"
| "repr_items (kv # d) =
     [CHR 39] @ fst kv @ [CHR 39] @ '': '' @ py_repr (snd kv)
       @ (if d = [] then [] else '', '' @ repr_items d)"

definition py_str :: "json \<Rightarrow> string" where
  "py_str x = (case x of JStr s \<Rightarrow> s | _ \<Rightarrow> py_repr x)"

text \<open>\<^verbatim>\<open>x[k]\<close> with any key: a dictionary takes a hashable key, a list or a string an
  integer index, counted from the end when negative.\<close>

definition seq_index :: "'a list \<Rightarrow> int \<Rightarrow> error + 'a" where
  "seq_index xs i =
     (if 0 \<le> i
      then (if nat i < length xs then Inr (xs ! nat i) else Inl IndexError)
      else (if nat (- i) \<le> length xs then Inr (xs ! (length xs - nat (- i)))
            else Inl IndexError))"

definition py_index :: "json \<Rightarrow> json \<Rightarrow> error + json" where
  "py_index x key =
     (case x of
        JDict d \<Rightarrow>
          (case key of
             JStr k \<Rightarrow> dict_getitem d k
           | JList _ \<Rightarrow> Inl TypeError
           | JDict _ \<Rightarrow> Inl TypeError
           | _ \<Rightarrow> Inl (KeyError (py_str key)))
      | JList xs \<Rightarrow>
          (case key of
             JInt i \<Rightarrow> seq_index xs i
           | JBool b \<Rightarrow> seq_index xs (if b then 1 else 0)
           | _ \<Rightarrow> Inl TypeError)
      | JStr s \<Rightarrow>
          (case key of
             JInt i \<Rightarrow> bindE (seq_index s i) (\<lambda>c. Inr (JStr [c]))
           | JBool b \<Rightarrow> bindE (seq_index s (if b then 1 else 0)) (\<lambda>c. Inr (JStr [c]))
           | _ \<Rightarrow> Inl TypeError)
      | _ \<Rightarrow> Inl TypeError)"

text \<open>
  \<^verbatim>\<open>template.format(**kwargs)\<close>: \<^verbatim>\<open>{{\<close> and \<^verbatim>\<open>}}\<close> are literal braces,
  \<^verbatim>\<open>{name}\<close> is replaced by \<^verbatim>\<open>str(kwargs[name])\<close>, a name that is empty or a
  number asks for a positional argument, of which there is none, and a brace without
  its partner is an error. Fields with a conversion, a format specification or an
  attribute or index access are not interpreted.
\<close>

definition format_field :: "dict \<Rightarrow> string \<Rightarrow> error + string" where
  "format_field kwargs name =
     (if list_ex (\<lambda>c. c \<in> set ''!:.[{'') name then Inl NotModelled
      else if list_all (\<lambda>c. c \<in> set ''0123456789'') name then Inl IndexError
      else case map_of kwargs name of
             None \<Rightarrow> Inl (KeyError name)
           | Some v \<Rightarrow> Inr (py_str v))"

function format_template :: "string \<Rightarrow> dict \<Rightarrow> error + string" where
  "format_template [] kwargs = Inr []"
| "format_template (c # cs) kwargs =
     (if c = CHR ''{'' then
        (if cs \<noteq> [] \<and> hd cs = CHR ''{''
         then bindE (format_template (tl cs) kwargs) (\<lambda>r. Inr (CHR ''{'' # r))
         else if CHR ''}'' \<notin> set cs then Inl (ValueError BadFormatString)
         else bindE (format_field kwargs (takeWhile (\<lambda>x. x \<noteq> CHR ''}'') cs)) (\<lambda>f.
              bindE (format_template (tl (dropWhile (\<lambda>x. x \<noteq> CHR ''}'') cs)) kwargs) (\<lambda>r.
                Inr (f @ r))))
      else if c = CHR ''}'' then
        (if cs \<noteq> [] \<and> hd cs = CHR ''}''
         then bindE (format_template (tl cs) kwargs) (\<lambda>r. Inr (CHR ''}'' # r))
         else Inl (ValueError BadFormatString))
      else bindE (format_template cs kwargs) (\<lambda>r. Inr (c # r)))"
  by pat_completeness auto
termination
proof (relation "measure (\<lambda>(t, k). length t)")
  fix c :: char and cs :: string and kwargs :: dict
  have "length (dropWhile (\<lambda>x. x \<noteq> CHR ''}'') cs) \<le> length cs"
    by (rule length_dropWhile_le)
  then show "((tl (dropWhile (\<lambda>x. x \<noteq> CHR ''}'') cs), kwargs), c # cs, kwargs)
             \<in> measure (\<lambda>(t, k). length t)"
    by simp
qed auto

section \<open>The helpers of \<^verbatim>\<open>ciadmin.util\<close>\<close>

text \<open>
  Modelled from the spec: \<^verbatim>\<open>merge\<close> of \<^verbatim>\<open>ciadmin/util/templates.py\<close>, which is
  not among the sources. Any number of mappings, later entries overriding earlier ones;
  a key whose values on both sides are mappings is merged recursively, any other value
  is replaced by the later one; keys keep their order of appearance; no argument is
  changed and there is no error condition.
\<close>

fun merge_json :: "json \<Rightarrow> json \<Rightarrow> json"
  and merge_items :: "dict \<Rightarrow> dict \<Rightarrow> dict" where
  "merge_json (JDict a) (JDict b) =
     JDict (merge_items a b @ filter (\<lambda>kv. \<not> has_key (fst kv) a) b)"
| "merge_json (JDict a) JNull = JNull"
| "merge_json (JDict a) (JBool v) = JBool v"
| "merge_json (JDict a) (JInt v) = JInt v"
| "merge_json (JDict a) (JStr v) = JStr v"
| "merge_json (JDict a) (JList v) = JList v"
| "merge_json JNull b = b"
| "merge_json (JBool v) b = b"
| "merge_json (JInt v) b = b"
| "merge_json (JStr v) b = b"
| "merge_json (JList v) b = b"
| "merge_items [] b = []"
| "merge_items (kv # rest) b =
     (fst kv, case map_of b (fst kv) of None \<Rightarrow> snd kv | Some vb \<Rightarrow> merge_json (snd kv) vb)
       # merge_items rest b"

definition merge :: "json list \<Rightarrow> json" where
  "merge objects = foldl merge_json (JDict []) objects"

text \<open>
  Modelled from the spec: \<^verbatim>\<open>evaluate_keyed_by\<close> of \<^verbatim>\<open>ciadmin/util/keyed_by.py\<close>,
  which is not among the sources. A value that is not rule-shaped is a literal and is
  returned unchanged. A rule is a mapping with the single key \<^verbatim>\<open>by-<attribute>\<close>
  whose value maps attribute values to nested fields: the branch for the attribute's
  value in the context is resolved recursively, else the \<^verbatim>\<open>default\<close> branch, and
  with neither the resolution fails, naming the field.
\<close>

definition lookup_branch :: "dict \<Rightarrow> dict \<Rightarrow> string \<Rightarrow> json option" where
  "lookup_branch attributes alternatives a =
     (case map_of attributes a of
        Some (JStr s) \<Rightarrow>
          (case map_of alternatives s of
             Some b \<Rightarrow> Some b
           | None \<Rightarrow> map_of alternatives ''default'')
      | _ \<Rightarrow> map_of alternatives ''default'')"

lemma map_of_size_less:
  "map_of d k = Some v \<Longrightarrow> size v < Suc (size_list (size_prod (\<lambda>_. 0) size) d)"
  by (induction d) (auto split: if_splits)

lemma lookup_branch_size_less:
  "lookup_branch attributes alternatives a = Some b \<Longrightarrow>
   size b < Suc (size_list (size_prod (\<lambda>_. 0) size) alternatives)"
  by (auto simp: lookup_branch_def dest: map_of_size_less split: option.splits json.splits)

function (sequential) evaluate_keyed_by :: "json \<Rightarrow> string \<Rightarrow> dict \<Rightarrow> error + json" where
  "evaluate_keyed_by (JDict [(k, JDict alternatives)]) item_name attributes =
     (if take 3 k = ''by-''
      then (case lookup_branch attributes alternatives (drop 3 k) of
              None \<Rightarrow> Inl (ResolutionError item_name)
            | Some b \<Rightarrow> evaluate_keyed_by b item_name attributes)
      else Inr (JDict [(k, JDict alternatives)]))"
| "evaluate_keyed_by v item_name attributes = Inr v"
  by pat_completeness auto
termination
  by (relation "measure (\<lambda>(v, n, a). size v)") (auto dest: lookup_branch_size_less)

section \<open>\<^verbatim>\<open>ciadmin/generate/worker_pools.py\<close>\<close>

subsection \<open>\<^verbatim>\<open>is_invalid_aws_instance_type\<close>\<close>

text \<open>The generator expression under \<^verbatim>\<open>any\<close>: entries are visited in order, \<^verbatim>\<open>and\<close>
  looks at the families only when the zone is listed, and the first match ends the scan.\<close>

fun any_invalid :: "json \<Rightarrow> string \<Rightarrow> json list \<Rightarrow> error + bool" where
  "any_invalid zone family [] = Inr False"
| "any_invalid zone family (entry # entries) =
     bindE (py_getitem entry ''zones'') (\<lambda>zones.
     bindE (py_in zone zones) (\<lambda>in_zones.
       if in_zones
       then bindE (py_getitem entry ''families'') (\<lambda>families.
            bindE (py_in (JStr family) families) (\<lambda>in_families.
              if in_families then Inr True else any_invalid zone family entries))
       else any_invalid zone family entries))"

definition is_invalid_aws_instance_type :: "json \<Rightarrow> json \<Rightarrow> json \<Rightarrow> error + bool" where
  "is_invalid_aws_instance_type invalid_instances zone instance_type =
     (case instance_type of
        JStr s \<Rightarrow>
          (case split_dot s of
             [family, isize] \<Rightarrow>
               bindE (py_iter invalid_instances) (\<lambda>entries. any_invalid zone family entries)
           | _ \<Rightarrow> Inl (ValueError NotEnoughValuesToUnpack))
      | _ \<Rightarrow> Inl AttributeError)"

subsection \<open>\<^verbatim>\<open>_validate_instance_capacity\<close>\<close>

text \<open>\<^verbatim>\<open>v != 1\<close>.\<close>

definition ne_one :: "json \<Rightarrow> bool" where
  "ne_one v = (\<not> py_eq v (JInt 1))"

definition validate_instance_type :: "json \<Rightarrow> json \<Rightarrow> error + unit" where
  "validate_instance_type implementation instance_type =
     bindE (py_in (JStr ''capacity'') instance_type) (\<lambda>c.
       if c then Inl (ValueError CapacityOnInstanceType)
       else
     bindE (py_get instance_type ''worker-config'' (JDict [])) (\<lambda>wc.
     bindE (py_in (JStr ''capacity'') wc) (\<lambda>c.
       if c then Inl (ValueError CapacityInWorkerConfig)
       else
     bindE (py_get instance_type ''capacityPerInstance'' (JInt 1)) (\<lambda>cpi.
       if ne_one cpi \<and> implementation \<noteq> JStr ''docker-worker''
       then Inl (ValueError CapacityPerInstanceUnsupported)
       else Inr ()))))"

fun validate_loop :: "json \<Rightarrow> json list \<Rightarrow> error + unit" where
  "validate_loop implementation [] = Inr ()"
| "validate_loop implementation (instance_type # rest) =
     bindE (validate_instance_type implementation instance_type)
       (\<lambda>_. validate_loop implementation rest)"

definition validate_instance_capacity :: "string \<Rightarrow> json \<Rightarrow> json \<Rightarrow> error + unit" where
  "validate_instance_capacity pool_id implementation instance_types =
     bindE (py_iter instance_types) (validate_loop implementation)"

subsection \<open>The environment and the image table\<close>

text \<open>
  The \<^verbatim>\<open>Environment\<close> object of \<^verbatim>\<open>ciconfig/environment.py\<close> (not among the
  sources), with the attributes this module reads.
\<close>

record environment =
  worker_manager :: json
  aws_config :: json
  azure_config :: json
  google_config :: json

text \<open>
  The image table and its images (\<^verbatim>\<open>ciconfig/worker_images.py\<close>, not among the
  sources) are taken as given: \<^verbatim>\<open>worker_images[name]\<close> finds an image or raises, and
  \<^verbatim>\<open>image.image_id(provider_id)\<close> or \<^verbatim>\<open>image.image_id(provider_id, region)\<close>
  gives the image identifier or raises.
\<close>

type_synonym worker_image = "json \<Rightarrow> json option \<Rightarrow> error + json"
type_synonym worker_images = "json \<Rightarrow> error + worker_image"

subsection \<open>\<^verbatim>\<open>get_aws_provider_config\<close>\<close>

text \<open>The body of the innermost loop: \<open>None\<close> is the \<^verbatim>\<open>continue\<close> of a skipped
  instance type, \<open>Some\<close> the launch configuration that is appended.\<close>

definition aws_launch_config ::
  "worker_image \<Rightarrow> json \<Rightarrow> json \<Rightarrow> json \<Rightarrow> json \<Rightarrow> json \<Rightarrow> json \<Rightarrow> json \<Rightarrow> json \<Rightarrow> json
   \<Rightarrow> json \<Rightarrow> json \<Rightarrow> error + json option" where
  "aws_launch_config img provider_id implementation worker_config user_data spot
     aws_cfg region security_groups availability_zone subnet_id instance_type =
     bindE (py_getitem aws_cfg ''invalid-instances'') (\<lambda>invalid_instances.
     bindE (py_getitem instance_type ''instanceType'') (\<lambda>itype.
     bindE (is_invalid_aws_instance_type invalid_instances availability_zone itype) (\<lambda>invalid.
       if invalid then Inr None
       else
     bindE (if implementation = JStr ''docker-worker''
            then bindE (py_get instance_type ''worker-config'' (JDict [])) (\<lambda>iwc.
                 bindE (py_get instance_type ''capacityPerInstance'' (JInt 1)) (\<lambda>cpi.
                   Inr (merge [worker_config, iwc, JDict [(''capacity'', cpi)]])))
            else bindE (py_get instance_type ''worker-config'' (JDict [])) (\<lambda>iwc.
                   Inr (merge [worker_config, iwc]))) (\<lambda>instance_worker_config.
     bindE (py_get instance_type ''capacityPerInstance'' (JInt 1)) (\<lambda>cpi.
     bindE (img provider_id (Some region)) (\<lambda>image_id.
     bindE (py_getitem instance_type ''instanceType'') (\<lambda>itype'.
     bindE (dict_update [] user_data) (\<lambda>aud.
     bindE (py_get instance_type ''additional-user-data'' (JDict [])) (\<lambda>iud.
     bindE (dict_update aud iud) (\<lambda>aud'.
     bindE (py_get instance_type ''launchConfig'' (JDict [])) (\<lambda>ilc.
     bindE (let lc = merge [JDict [(''ImageId'', image_id),
                                   (''Placement'', JDict [(''AvailabilityZone'', availability_zone)]),
                                   (''SubnetId'', subnet_id),
                                   (''SecurityGroupIds'', security_groups),
                                   (''InstanceType'', itype')], ilc]
            in if truthy spot
               then py_setitem lc ''InstanceMarketOptions'' (JDict [(''MarketType'', JStr ''spot'')])
               else Inr lc) (\<lambda>lc.
       Inr (Some (JDict [(''capacityPerInstance'', cpi),
                         (''region'', region),
                         (''launchConfig'', lc),
                         (''workerConfig'', instance_worker_config),
                         (''additionalUserData'', JDict aud')]))))))))))))))"

text \<open>The three nested loops; the launch configurations are appended in loop order.\<close>

definition somes :: "'a option list \<Rightarrow> 'a list" where
  "somes xs = concat (map (\<lambda>x. case x of None \<Rightarrow> [] | Some y \<Rightarrow> [y]) xs)"

definition aws_zone_loop ::
  "worker_image \<Rightarrow> json \<Rightarrow> string \<Rightarrow> json \<Rightarrow> json \<Rightarrow> json \<Rightarrow> json \<Rightarrow> json \<Rightarrow> json \<Rightarrow> json
   \<Rightarrow> json \<Rightarrow> json \<Rightarrow> error + json list" where
  "aws_zone_loop img provider_id pool_id implementation worker_config user_data spot
     aws_cfg instance_types region security_groups availability_zone =
     bindE (py_getitem aws_cfg ''subnet-id'') (\<lambda>rule.
     bindE (evaluate_keyed_by rule pool_id [(''availability-zone'', availability_zone)]) (\<lambda>subnet_id.
     bindE (py_iter instance_types) (\<lambda>its.
     bindE (mapE (aws_launch_config img provider_id implementation worker_config user_data spot
                    aws_cfg region security_groups availability_zone subnet_id) its) (\<lambda>lcs.
       Inr (somes lcs)))))"

definition aws_region_loop ::
  "worker_image \<Rightarrow> json \<Rightarrow> string \<Rightarrow> json \<Rightarrow> json \<Rightarrow> json \<Rightarrow> json \<Rightarrow> json \<Rightarrow> json \<Rightarrow> json
   \<Rightarrow> json \<Rightarrow> error + json list" where
  "aws_region_loop img provider_id pool_id implementation worker_config user_data spot
     aws_cfg instance_types security region =
     bindE (py_getitem aws_cfg ''availability-zones'') (\<lambda>az_rule.
     bindE (evaluate_keyed_by az_rule pool_id [(''region'', region)]) (\<lambda>availability_zones.
     bindE (py_getitem aws_cfg ''security-groups'') (\<lambda>sg_rule.
     bindE (evaluate_keyed_by sg_rule pool_id [(''region'', region), (''security'', security)])
       (\<lambda>security_groups.
     bindE (py_iter availability_zones) (\<lambda>azs.
     bindE (mapE (aws_zone_loop img provider_id pool_id implementation worker_config user_data
                    spot aws_cfg instance_types region security_groups) azs) (\<lambda>lcss.
       Inr (concat lcss)))))))"

definition get_aws_provider_config ::
  "environment \<Rightarrow> json \<Rightarrow> string \<Rightarrow> dict \<Rightarrow> worker_images \<Rightarrow> json \<Rightarrow> error + dict" where
  "get_aws_provider_config environment provider_id pool_id config0 worker_images defaults0 =
     bindE (dict_pop config0 ''regions'') (\<lambda>(regions, config1).
     bindE (dict_getitem config1 ''image'') (\<lambda>image_name.
     bindE (worker_images image_name) (\<lambda>img.
     bindE (dict_getitem config1 ''instance_types'') (\<lambda>instance_types.
     let (security, config2) = dict_pop_default config1 ''security'' (JStr ''untrusted'');
         (spot, config3) = dict_pop_default config2 ''spot'' (JBool True);
         (user_data, config4) = dict_pop_default config3 ''additional-user-data'' (JDict []);
         (implementation, config5) = dict_pop_default config4 ''implementation'' (JStr ''docker-worker'')
     in
     bindE (evaluate_keyed_by defaults0 ''defaults'' [(''provider'', provider_id)]) (\<lambda>defaults.
     bindE (py_get defaults ''lifecycle'' (JDict [])) (\<lambda>default_lifecycle.
     let (pool_lifecycle, config) = dict_pop_default config5 ''lifecycle'' (JDict []);
         lifecycle = merge [default_lifecycle, pool_lifecycle]
     in
     bindE (py_get defaults ''worker-config'' (JDict [])) (\<lambda>wc_rule.
     bindE (evaluate_keyed_by wc_rule pool_id [(''implementation'', implementation)]) (\<lambda>wc.
     let worker_config = merge [wc, dict_get config ''worker-config'' (JDict [])]
     in
     bindE (validate_instance_capacity pool_id implementation instance_types) (\<lambda>_.
     bindE (py_iter regions) (\<lambda>rs.
     bindE (mapE (aws_region_loop img provider_id pool_id implementation worker_config user_data
                    spot (aws_config environment) instance_types security) rs) (\<lambda>lcss.
     bindE (dict_getitem config ''maxCapacity'') (\<lambda>max_capacity.
       Inr [(''minCapacity'', dict_get config ''minCapacity'' (JInt 0)),
            (''maxCapacity'', max_capacity),
            (''lifecycle'', lifecycle),
            (''launchConfigs'', JList (concat lcss))]))))))))))))"

subsection \<open>\<^verbatim>\<open>get_azure_provider_config\<close>\<close>

text \<open>The launch configuration of a location and a size before the size's own
  \<^verbatim>\<open>launchConfig\<close> is merged over it.\<close>

definition azure_base_launch_config ::
  "json \<Rightarrow> json \<Rightarrow> json \<Rightarrow> json \<Rightarrow> json \<Rightarrow> string \<Rightarrow> json \<Rightarrow> json \<Rightarrow> dict" where
  "azure_base_launch_config subscription image_rgroup purpose tags worker_config l ImageId vmSize =
     (let loc = filter (\<lambda>c. c \<noteq> CHR ''-'') l;
          subscription_id = ''/subscriptions/'' @ py_str subscription;
          resource_suffix = l @ ''-'' @ py_str purpose;
          rgroup = ''rg-'' @ resource_suffix;
          vnet = ''vn-'' @ resource_suffix;
          snet = ''sn-'' @ resource_suffix;
          subnetId = subscription_id @ ''/resourceGroups/'' @ rgroup
            @ ''/providers/Microsoft.Network/virtualNetworks/'' @ vnet @ ''/subnets/'' @ snet;
          imageReference_id = subscription_id @ ''/resourceGroups/'' @ py_str image_rgroup
            @ ''/providers/Microsoft.Compute/images/'' @ py_str ImageId
      in [(''location'', JStr loc),
          (''subnetId'', JStr subnetId),
          (''tags'', merge [tags]),
          (''workerConfig'', merge [worker_config]),
          (''hardwareProfile'', JDict [(''vmSize'', vmSize)]),
          (''priority'', JStr ''spot''),
          (''billingProfile'', JDict [(''maxPrice'', JInt (- 1))]),
          (''evictionPolicy'', JStr ''Delete''),
          (''capacityPerInstance'', JInt 1),
          (''storageProfile'',
             JDict [(''imageReference'', JDict [(''id'', JStr imageReference_id)])])])"

definition azure_launch_config ::
  "worker_image \<Rightarrow> json \<Rightarrow> json \<Rightarrow> json \<Rightarrow> json \<Rightarrow> json \<Rightarrow> json \<Rightarrow> json \<Rightarrow> json
   \<Rightarrow> error + json" where
  "azure_launch_config img provider_id azure_cfg image_rgroup purpose tags worker_config
     location vmSize =
     (case location of
        JStr l \<Rightarrow>
          bindE (img provider_id (Some location)) (\<lambda>ImageId.
          bindE (py_getitem azure_cfg ''subscription'') (\<lambda>subscription.
          bindE (py_get vmSize ''launchConfig'' (JDict [])) (\<lambda>override.
            Inr (merge [JDict (azure_base_launch_config subscription image_rgroup purpose tags
                                 worker_config l ImageId vmSize),
                        override]))))
      | _ \<Rightarrow> Inl AttributeError)"

definition azure_location_loop ::
  "worker_image \<Rightarrow> json \<Rightarrow> json \<Rightarrow> json \<Rightarrow> json \<Rightarrow> json \<Rightarrow> json \<Rightarrow> json \<Rightarrow> json
   \<Rightarrow> error + json list" where
  "azure_location_loop img provider_id azure_cfg image_rgroup purpose tags worker_config
     vmSizes location =
     bindE (py_iter vmSizes) (\<lambda>sizes.
       mapE (azure_launch_config img provider_id azure_cfg image_rgroup purpose tags worker_config
               location) sizes)"

definition get_azure_provider_config ::
  "environment \<Rightarrow> json \<Rightarrow> string \<Rightarrow> dict \<Rightarrow> worker_images \<Rightarrow> json \<Rightarrow> error + dict" where
  "get_azure_provider_config environment provider_id pool_id config0 worker_images defaults0 =
     bindE (dict_pop config0 ''locations'') (\<lambda>(locations, config1).
     bindE (dict_pop config1 ''image_resource_group'') (\<lambda>(image_rgroup, config2).
     bindE (dict_getitem config2 ''vmSizes'') (\<lambda>vmSizes.
     bindE (dict_getitem config2 ''worker-purpose'') (\<lambda>purpose.
     bindE (dict_getitem config2 ''image'') (\<lambda>image_name.
     bindE (worker_images image_name) (\<lambda>img.
     let (user_data, config3) = dict_pop_default config2 ''additional-user-data'' (JDict []);
         (implementation, config4) =
            dict_pop_default config3 ''implementation'' (JStr ''generic-worker/worker-runner-windows'');
         (spot, config5) = dict_pop_default config4 ''spot'' (JBool True)
     in
     bindE (evaluate_keyed_by defaults0 ''defaults'' [(''provider'', provider_id)]) (\<lambda>defaults.
     bindE (py_get defaults ''lifecycle'' (JDict [])) (\<lambda>default_lifecycle.
     let (pool_lifecycle, config) = dict_pop_default config5 ''lifecycle'' (JDict []);
         lifecycle = merge [default_lifecycle, pool_lifecycle]
     in
     bindE (py_get defaults ''worker-config'' (JDict [])) (\<lambda>wc_rule.
     bindE (evaluate_keyed_by wc_rule pool_id [(''implementation'', implementation)]) (\<lambda>wc.
     let worker_config = merge [wc, dict_get config ''worker-config'' (JDict [])];
         tags = dict_get config ''tags'' (JDict [])
     in
     bindE (py_iter locations) (\<lambda>ls.
     bindE (mapE (azure_location_loop img provider_id (azure_config environment) image_rgroup
                    purpose tags worker_config vmSizes) ls) (\<lambda>lcss.
     bindE (dict_getitem config ''maxCapacity'') (\<lambda>max_capacity.
       Inr [(''minCapacity'', dict_get config ''minCapacity'' (JInt 0)),
            (''maxCapacity'', max_capacity),
            (''lifecycle'', lifecycle),
            (''launchConfigs'', JList (concat lcss))])))))))))))))"

subsection \<open>\<^verbatim>\<open>get_google_provider_config\<close>\<close>

text \<open>The loop over the disks of a copied instance type: the source image of a disk that
  asks for \<^verbatim>\<open><image>\<close> is replaced by the image name.\<close>

definition google_disk :: "json \<Rightarrow> json \<Rightarrow> error + json" where
  "google_disk image_name disk =
     bindE (py_getitem disk ''initializeParams'') (\<lambda>params.
     bindE (py_get params ''sourceImage'' JNull) (\<lambda>source.
       if source = JStr ''<image>''
       then bindE (py_setitem params ''sourceImage'' image_name) (\<lambda>params'.
              py_setitem disk ''initializeParams'' params')
       else Inr disk))"

text \<open>The disks after the loop, which changes them in place: a list holds the changed
  disks; anything else that could be iterated had no element to change.\<close>

definition store_disks :: "json \<Rightarrow> json list \<Rightarrow> dict \<Rightarrow> dict" where
  "store_disks disks ds launch_config =
     (case disks of JList _ \<Rightarrow> AList.update ''disks'' (JList ds) launch_config
      | _ \<Rightarrow> launch_config)"

definition google_launch_config ::
  "json \<Rightarrow> json \<Rightarrow> json \<Rightarrow> json \<Rightarrow> json \<Rightarrow> json \<Rightarrow> error + json" where
  "google_launch_config image_name implementation worker_config region zone instance_type =
     (case instance_type of
        JDict it \<Rightarrow>
          let lc1 = AList.update ''capacityPerInstance''
                      (dict_get it ''capacityPerInstance'' (JInt 1)) it;
              lc2 = AList.update ''zone'' zone (AList.update ''region'' region lc1)
          in
          bindE (dict_getitem lc2 ''disks'') (\<lambda>disks.
          bindE (py_iter disks) (\<lambda>ds.
          bindE (mapE (google_disk image_name) ds) (\<lambda>ds'.
          let lc3 = store_disks disks ds' lc2;
              (iwc, lc4) = dict_pop_default lc3 ''worker-config'' (JDict []);
              lc5 = AList.update ''workerConfig'' (merge [worker_config, iwc]) lc4;
              lc6 = (if implementation = JStr ''docker-worker''
                     then AList.update ''workerConfig''
                            (merge [dict_get lc5 ''workerConfig'' JNull,
                                    JDict [(''capacity'', dict_get it ''capacityPerInstance'' (JInt 1))]])
                            lc5
                     else lc5)
          in
          bindE (dict_pop lc6 ''machine_type'') (\<lambda>(machine_type, lc7).
          let lc8 = AList.update ''machineType''
                      (JStr (''zones/'' @ py_str zone @ ''/machineTypes/'' @ py_str machine_type)) lc7;
              lc9 = AList.update ''scheduling''
                      (JDict [(''onHostMaintenance'', JStr ''terminate''),
                              (''automaticRestart'', JBool False),
                              (''preemptible'', JBool True)]) lc8
          in Inr (JDict lc9)))))
      | _ \<Rightarrow> Inl AttributeError)"

definition google_zone_loop ::
  "json \<Rightarrow> json \<Rightarrow> json \<Rightarrow> json \<Rightarrow> json \<Rightarrow> json \<Rightarrow> error + json list" where
  "google_zone_loop image_name implementation worker_config instance_types region zone =
     bindE (py_iter instance_types) (\<lambda>its.
       mapE (google_launch_config image_name implementation worker_config region zone) its)"

definition google_region_loop ::
  "json \<Rightarrow> string \<Rightarrow> json \<Rightarrow> json \<Rightarrow> json \<Rightarrow> json \<Rightarrow> json \<Rightarrow> error + json list" where
  "google_region_loop google_cfg pool_id image_name implementation worker_config instance_types
     region =
     bindE (py_getitem google_cfg ''zones'') (\<lambda>zone_rule.
     bindE (evaluate_keyed_by zone_rule pool_id [(''region'', region)]) (\<lambda>zones.
     bindE (py_iter zones) (\<lambda>zs.
     bindE (mapE (google_zone_loop image_name implementation worker_config instance_types region)
              zs) (\<lambda>lcss.
       Inr (concat lcss)))))"

definition get_google_provider_config ::
  "environment \<Rightarrow> json \<Rightarrow> string \<Rightarrow> dict \<Rightarrow> worker_images \<Rightarrow> json \<Rightarrow> error + dict" where
  "get_google_provider_config environment provider_id pool_id config0 worker_images defaults0 =
     bindE (dict_pop config0 ''regions'') (\<lambda>(regions, config1).
     bindE (dict_getitem config1 ''image'') (\<lambda>image_name0.
     bindE (worker_images image_name0) (\<lambda>img.
     bindE (dict_getitem config1 ''instance_types'') (\<lambda>instance_types.
     let (implementation, config2) = dict_pop_default config1 ''implementation'' (JStr ''docker-worker'')
     in
     bindE (evaluate_keyed_by defaults0 ''defaults'' [(''provider'', provider_id)]) (\<lambda>defaults.
     bindE (py_get defaults ''lifecycle'' (JDict [])) (\<lambda>default_lifecycle.
     let (pool_lifecycle, config) = dict_pop_default config2 ''lifecycle'' (JDict []);
         lifecycle = merge [default_lifecycle, pool_lifecycle]
     in
     bindE (py_get defaults ''worker-config'' (JDict [])) (\<lambda>wc_rule.
     bindE (evaluate_keyed_by wc_rule pool_id [(''implementation'', implementation)]) (\<lambda>wc.
     let worker_config = merge [wc, dict_get config ''worker-config'' (JDict [])]
     in
     bindE (img provider_id None) (\<lambda>image_name.
     bindE (validate_instance_capacity pool_id implementation instance_types) (\<lambda>_.
     bindE (py_iter regions) (\<lambda>rs.
     bindE (mapE (google_region_loop (google_config environment) pool_id image_name implementation
                    worker_config instance_types) rs) (\<lambda>lcss.
     bindE (dict_getitem config ''maxCapacity'') (\<lambda>max_capacity.
       Inr [(''minCapacity'', dict_get config ''minCapacity'' (JInt 0)),
            (''maxCapacity'', max_capacity),
            (''lifecycle'', lifecycle),
            (''launchConfigs'', JList (concat lcss))])))))))))))))"

subsection \<open>\<^verbatim>\<open>make_worker_pool\<close>\<close>

text \<open>
  A pool definition (the class \<^verbatim>\<open>WorkerPool\<close> of \<^verbatim>\<open>ciconfig/worker_pools.py\<close>)
  and the resource made from it (\<^verbatim>\<open>tcadmin.resources.WorkerPool\<close>); neither class is
  among the sources, and both are records of the fields this module reads and writes.
  In a raw definition \<^verbatim>\<open>pool_id\<close> is a template and \<^verbatim>\<open>provider_id\<close> a keyed-by
  field; in an expanded one they are the identifier and the provider. The fields
  \<^verbatim>\<open>description\<close>, \<^verbatim>\<open>owner\<close> and \<^verbatim>\<open>config\<close> of the resource are written with
  the prefix \<open>wp_\<close>. The argument \<^verbatim>\<open>resources\<close> of \<^verbatim>\<open>make_worker_pool\<close>, which
  it does not use, is left out.
\<close>

record config_worker_pool =
  pool_id :: string
  description :: json
  owner :: json
  provider_id :: json
  config :: dict
  email_on_error :: json
  variants :: "dict list"

record worker_pool =
  workerPoolId :: string
  wp_description :: json
  wp_owner :: json
  providerId :: json
  wp_config :: dict
  emailOnError :: json

text \<open>\<^verbatim>\<open>PROVIDER_IMPLEMENTATIONS[provider_implementation](...)\<close>.\<close>

definition provider_implementations ::
  "json \<Rightarrow> error + (environment \<Rightarrow> json \<Rightarrow> string \<Rightarrow> dict \<Rightarrow> worker_images \<Rightarrow> json \<Rightarrow> error + dict)" where
  "provider_implementations key =
     (case key of
        JStr k \<Rightarrow>
          (if k = ''aws'' then Inr get_aws_provider_config
           else if k = ''google'' then Inr get_google_provider_config
           else if k = ''azure'' then Inr get_azure_provider_config
           else Inl (KeyError k))
      | JList _ \<Rightarrow> Inl TypeError
      | JDict _ \<Rightarrow> Inl TypeError
      | _ \<Rightarrow> Inl (KeyError (py_str key)))"

definition make_worker_pool ::
  "environment \<Rightarrow> config_worker_pool \<Rightarrow> worker_images \<Rightarrow> json \<Rightarrow> error + worker_pool" where
  "make_worker_pool environment wp worker_images worker_defaults =
     bindE (py_getitem (worker_manager environment) ''providers'') (\<lambda>providers.
     bindE (py_in (provider_id wp) providers) (\<lambda>known.
     bindE (if known
            then bindE (py_index providers (provider_id wp)) (\<lambda>provider.
                 bindE (py_getitem provider ''implementation'') (\<lambda>provider_implementation.
                 bindE (provider_implementations provider_implementation) (\<lambda>generator.
                   generator environment (provider_id wp) (pool_id wp) (config wp)
                     worker_images worker_defaults)))
            else Inr (config wp)) (\<lambda>cfg.
       Inr \<lparr>workerPoolId = pool_id wp,
            wp_description = description wp,
            wp_owner = owner wp,
            providerId = provider_id wp,
            wp_config = cfg,
            emailOnError = email_on_error wp\<rparr>)))"

subsection \<open>\<^verbatim>\<open>generate_pool_variants\<close>\<close>

text \<open>The \<^verbatim>\<open>Environment\<close> object as a value of the attribute context.\<close>

definition environment_obj :: "environment \<Rightarrow> json" where
  "environment_obj e =
     JDict [(''worker_manager'', worker_manager e), (''aws_config'', aws_config e),
            (''azure_config'', azure_config e), (''google_config'', google_config e)]"

definition update_config_key :: "string \<Rightarrow> dict \<Rightarrow> string \<Rightarrow> dict \<Rightarrow> error + dict" where
  "update_config_key name attributes key cfg =
     (if has_key key cfg
      then bindE (dict_getitem cfg key) (\<lambda>field.
           bindE (evaluate_keyed_by field name attributes) (\<lambda>v.
             if v \<noteq> JNull then Inr (AList.update key v cfg) else Inr (AList.delete key cfg)))
      else Inr cfg)"

fun update_config_loop :: "string \<Rightarrow> dict \<Rightarrow> string list \<Rightarrow> dict \<Rightarrow> error + dict" where
  "update_config_loop name attributes [] cfg = Inr cfg"
| "update_config_loop name attributes (key # keys) cfg =
     bindE (update_config_key name attributes key cfg) (update_config_loop name attributes keys)"

definition update_config :: "dict \<Rightarrow> string \<Rightarrow> dict \<Rightarrow> error + dict" where
  "update_config cfg name attributes =
     update_config_loop name attributes
       [''image'', ''maxCapacity'', ''minCapacity'', ''security''] cfg"

text \<open>The context of a variant: the environment, then the variant's attributes over it.\<close>

definition variant_attributes :: "environment \<Rightarrow> dict \<Rightarrow> dict" where
  "variant_attributes environment variant =
     foldl (\<lambda>acc kv. AList.update (fst kv) (snd kv) acc)
       [(''environment'', environment_obj environment)] variant"

text \<open>The body of the inner loop: the definition that is yielded for a variant.\<close>

definition expand_variant ::
  "config_worker_pool \<Rightarrow> environment \<Rightarrow> dict \<Rightarrow> error + config_worker_pool" where
  "expand_variant wp environment variant =
     bindE (format_template (pool_id wp) variant) (\<lambda>name.
     let attributes = variant_attributes environment variant in
     bindE (evaluate_keyed_by (provider_id wp) name attributes) (\<lambda>pid.
     bindE (update_config (config wp) name attributes) (\<lambda>cfg.
       Inr (wp\<lparr>pool_id := name, provider_id := pid, config := cfg, variants := [[]]\<rparr>))))"

text \<open>
  The generator: the definitions it yields, in order, and the exception that ends it,
  if any. What was yielded before an exception has already reached the consumer.
\<close>

fun variants_loop ::
  "config_worker_pool \<Rightarrow> environment \<Rightarrow> dict list \<Rightarrow> config_worker_pool list \<times> error option" where
  "variants_loop wp environment [] = ([], None)"
| "variants_loop wp environment (variant # rest) =
     (case expand_variant wp environment variant of
        Inl e \<Rightarrow> ([], Some e)
      | Inr x \<Rightarrow> (case variants_loop wp environment rest of (xs, r) \<Rightarrow> (x # xs, r)))"

fun generate_pool_variants ::
  "config_worker_pool list \<Rightarrow> environment \<Rightarrow> config_worker_pool list \<times> error option" where
  "generate_pool_variants [] environment = ([], None)"
| "generate_pool_variants (wp # worker_pools) environment =
     (case variants_loop wp environment (variants wp) of
        (xs, Some e) \<Rightarrow> (xs, Some e)
      | (xs, None) \<Rightarrow>
          (case generate_pool_variants worker_pools environment of (ys, r) \<Rightarrow> (xs @ ys, r)))"

subsection \<open>\<^verbatim>\<open>update_resources\<close>\<close>

text \<open>
  The resource collection of \<^verbatim>\<open>tcadmin\<close>: the patterns it manages and the resources
  added to it. What \<^verbatim>\<open>update_resources\<close> fetches first (the pool definitions, the
  image table, the file \<^verbatim>\<open>worker-pools.yml\<close> and the current environment) is given.
  The result is the collection as the call leaves it and the exception it ends with, if
  any. The loop takes one definition from the generator at a time, so a definition is
  expanded only after the resources of those before it have been added. A resource is
  an object without a truth value of its own, so the test \<^verbatim>\<open>if apwt\<close> holds for each.
\<close>

record resources =
  managed :: "string list"
  added :: "worker_pool list"

text \<open>
  \<^verbatim>\<open>resources.add(apwt)\<close>. The identifier of a worker-pool resource is made of its
  \<^verbatim>\<open>workerPoolId\<close>, and the pattern \<^verbatim>\<open>WorkerPool=.*\<close>, which \<^verbatim>\<open>update_resources\<close>
  declares first, manages each of them. The collection refuses a second resource with an
  identifier it already holds: that is a RuntimeError, and the collection is left as it
  was. The resources are kept here in the order in which they were added.
\<close>

definition resources_add :: "resources \<Rightarrow> worker_pool \<Rightarrow> error + resources" where
  "resources_add res apwt =
     (if workerPoolId apwt \<in> set (map workerPoolId (added res)) then Inl RuntimeError
      else Inr (res\<lparr>added := added res @ [apwt]\<rparr>))"

fun add_pools ::
  "environment \<Rightarrow> worker_images \<Rightarrow> json \<Rightarrow> resources \<Rightarrow> config_worker_pool list
   \<Rightarrow> resources \<times> error option" where
  "add_pools environment worker_images worker_defaults res [] = (res, None)"
| "add_pools environment worker_images worker_defaults res (wp # wps) =
     (case make_worker_pool environment wp worker_images worker_defaults of
        Inl e \<Rightarrow> (res, Some e)
      | Inr apwt \<Rightarrow>
          (case resources_add res apwt of
             Inl e \<Rightarrow> (res, Some e)
           | Inr res' \<Rightarrow> add_pools environment worker_images worker_defaults res' wps))"

definition update_resources ::
  "resources \<Rightarrow> config_worker_pool list \<Rightarrow> worker_images \<Rightarrow> dict \<Rightarrow> environment
   \<Rightarrow> resources \<times> error option" where
  "update_resources res worker_pools worker_images worker_pools_yml environment =
     (let res1 = res\<lparr>managed := managed res @ [''WorkerPool=.*'']\<rparr>;
          worker_defaults = dict_get worker_pools_yml ''worker-defaults'' JNull
      in case generate_pool_variants worker_pools environment of
           (wps, gen_error) \<Rightarrow>
             (case add_pools environment worker_images worker_defaults res1 wps of
                (res2, Some e) \<Rightarrow> (res2, Some e)
              | (res2, None) \<Rightarrow> (res2, gen_error)))"

section \<open>Terms of the statements\<close>

text \<open>
  The family of an instance type is the text before its first dot. A well-formed table
  of invalid instances is a list of dictionaries, each with a list of zones and a list
  of families; it marks an instance type in a zone when some entry lists both the zone
  and the family.
\<close>

definition family_of :: "string \<Rightarrow> string" where
  "family_of s = takeWhile (\<lambda>c. c \<noteq> CHR ''.'') s"

definition table_marks :: "(json list \<times> json list) list \<Rightarrow> string \<Rightarrow> string \<Rightarrow> bool" where
  "table_marks tbl z s =
     list_ex (\<lambda>p. JStr z \<in> set (fst p) \<and> JStr (family_of s) \<in> set (snd p)) tbl"

text \<open>The \<^verbatim>\<open>instanceType\<close> string of an instance type.\<close>

definition instance_type_name :: "json \<Rightarrow> string" where
  "instance_type_name instance_type =
     (case py_getitem instance_type ''instanceType'' of Inr (JStr s) \<Rightarrow> s | _ \<Rightarrow> [])"

definition is_table_entry :: "json \<Rightarrow> json list \<times> json list \<Rightarrow> bool" where
  "is_table_entry entry p =
     (case entry of
        JDict d \<Rightarrow> map_of d ''zones'' = Some (JList (fst p))
                  \<and> map_of d ''families'' = Some (JList (snd p))
      | _ \<Rightarrow> False)"


text \<open>The launch configurations of a generator's result (none when it raised), and the
  value under a key of a launch configuration.\<close>

definition launch_configs :: "error + dict \<Rightarrow> json list" where
  "launch_configs res =
     (case res of
        Inr r \<Rightarrow> (case map_of r ''launchConfigs'' of Some (JList l) \<Rightarrow> l | _ \<Rightarrow> [])
      | Inl _ \<Rightarrow> [])"

definition field :: "string \<Rightarrow> json \<Rightarrow> json option" where
  "field k v = (case v of JDict d \<Rightarrow> map_of d k | _ \<Rightarrow> None)"

section \<open>Example inputs\<close>

text \<open>An environment with one AWS region of one availability zone, in which the family
  \<^verbatim>\<open>m5\<close> is unusable, one Azure subscription and one Google region of one zone.\<close>

definition environment_ex :: environment where
  "environment_ex =
     \<lparr>worker_manager = JDict [(''providers'',
          JDict [(''aws'', JDict [(''implementation'', JStr ''aws'')]),
                 (''azure'', JDict [(''implementation'', JStr ''azure'')]),
                 (''google'', JDict [(''implementation'', JStr ''google'')])])],
      aws_config = JDict
        [(''availability-zones'',
            JDict [(''by-region'', JDict [(''us-east-1'', JList [JStr ''us-east-1a''])])]),
         (''security-groups'', JList [JStr ''sg-1'']),
         (''subnet-id'', JStr ''subnet-1''),
         (''invalid-instances'',
            JList [JDict [(''zones'', JList [JStr ''us-east-1a'']),
                          (''families'', JList [JStr ''m5''])]])],
      azure_config = JDict [(''subscription'', JStr ''sub-1'')],
      google_config = JDict
        [(''zones'', JDict [(''by-region'', JDict [(''us-central1'', JList [JStr ''us-central1-a''])])])]\<rparr>"

definition worker_images_ex :: worker_images where
  "worker_images_ex = (\<lambda>name. Inr (\<lambda>provider region. Inr (JStr ''image-1'')))"

definition pool_ex :: config_worker_pool where
  "pool_ex =
     \<lparr>pool_id = ''pool-{letter}'',
      description = JStr ''a pool'',
      owner = JStr ''nobody@example.com'',
      provider_id = JStr ''static'',
      config = [(''image'', JDict [(''by-letter'',
                   JDict [(''a'', JStr ''image-a''), (''default'', JNull)])]),
                (''maxCapacity'', JInt 5),
                (''workerType'', JStr ''t'')],
      email_on_error = JBool False,
      variants = [[(''letter'', JStr ''a'')], [(''letter'', JStr ''b'')]]\<rparr>"

text \<open>An AWS pool in that region, of two instance types.\<close>

definition aws_pool_config_ex :: "string \<Rightarrow> string \<Rightarrow> dict" where
  "aws_pool_config_ex t1 t2 =
     [(''regions'', JList [JStr ''us-east-1'']),
      (''image'', JStr ''img''),
      (''instance_types'',
         JList [JDict [(''instanceType'', JStr t1)], JDict [(''instanceType'', JStr t2)]]),
      (''maxCapacity'', JInt 5)]"

text \<open>An Azure pool of one location and one size, and a Google pool of one region and one
  instance type.\<close>

definition azure_pool_config_ex :: "json \<Rightarrow> dict" where
  "azure_pool_config_ex vmSize =
     [(''locations'', JList [JStr ''west-us'']),
      (''image_resource_group'', JStr ''rg-images''),
      (''vmSizes'', JList [vmSize]),
      (''worker-purpose'', JStr ''gecko-t''),
      (''image'', JStr ''img''),
      (''maxCapacity'', JInt 5)]"

definition google_pool_config_ex :: "dict \<Rightarrow> dict" where
  "google_pool_config_ex extra =
     [(''regions'', JList [JStr ''us-central1'']),
      (''image'', JStr ''img''),
      (''instance_types'',
         JList [JDict ([(''machine_type'', JStr ''n2-standard-4''),
                        (''disks'', JList [JDict [(''initializeParams'',
                                             JDict [(''sourceImage'', JStr ''<image>'')])]])]
                       @ extra)]),
      (''maxCapacity'', JInt 5)]"


text \<open>A pool of a provider that no generator backs, and an AWS pool without regions.\<close>

definition static_pool_ex :: config_worker_pool where
  "static_pool_ex =
     \<lparr>pool_id = ''static-pool'', description = JStr ''kept by hand'',
      owner = JStr ''nobody@example.com'', provider_id = JStr ''static'',
      config = [(''workerType'', JStr ''t'')], email_on_error = JBool False,
      variants = [[]]\<rparr>"

definition broken_pool_ex :: config_worker_pool where
  "broken_pool_ex =
     \<lparr>pool_id = ''broken-pool'', description = JStr ''no regions'',
      owner = JStr ''nobody@example.com'', provider_id = JStr ''aws'',
      config = [(''image'', JStr ''img''), (''maxCapacity'', JInt 5)],
      email_on_error = JBool False, variants = [[]]\<rparr>"

definition static_resource_ex :: worker_pool where
  "static_resource_ex =
     \<lparr>workerPoolId = ''static-pool'', wp_description = JStr ''kept by hand'',
      wp_owner = JStr ''nobody@example.com'', providerId = JStr ''static'',
      wp_config = [(''workerType'', JStr ''t'')], emailOnError = JBool False\<rparr>"

section \<open>Properties\<close>

subsection \<open>Results and dictionaries\<close>

lemma bindE_Inl [simp]: "bindE (Inl e) f = Inl e"
  by (simp add: bindE_def)

lemma bindE_Inr [simp]: "bindE (Inr x) f = f x"
  by (simp add: bindE_def)

lemma bindE_eq_Inr: "bindE m f = Inr y \<longleftrightarrow> (\<exists>x. m = Inr x \<and> f x = Inr y)"
  by (cases m) simp_all

lemma not_isl_iff: "\<not> isl m \<longleftrightarrow> (\<exists>y. m = Inr y)"
  by (cases m) simp_all

lemma mapE_eq_Inr: "mapE f xs = Inr ys \<longleftrightarrow> list_all2 (\<lambda>x y. f x = Inr y) xs ys"
proof (induction xs arbitrary: ys)
  case Nil
  show ?case by auto
next
  case (Cons x xs)
  show ?case
    by (cases ys) (auto simp: bindE_eq_Inr Cons.IH)
qed

lemma mapE_Inr_member: "mapE f xs = Inr ys \<Longrightarrow> x \<in> set xs \<Longrightarrow> \<exists>y. f x = Inr y"
  by (induction xs arbitrary: ys) (auto simp: bindE_eq_Inr)

lemma dict_getitem_eq_Inr: "dict_getitem d k = Inr v \<longleftrightarrow> map_of d k = Some v"
  by (simp add: dict_getitem_def split: option.splits)

lemma dict_pop_eq_Inr:
  "dict_pop d k = Inr p \<longleftrightarrow> map_of d k = Some (fst p) \<and> snd p = AList.delete k d"
  by (cases p) (auto simp: dict_pop_def split: option.splits)

lemma delete_absent: "map_of d k = None \<Longrightarrow> AList.delete k d = d"
  by (simp add: map_of_eq_None_iff)

lemma dict_pop_default_eq: "dict_pop_default d k dflt = (dict_get d k dflt, AList.delete k d)"
  by (simp add: dict_pop_default_def dict_get_def delete_absent split: option.splits)

lemma dict_get_delete: "k' \<noteq> k \<Longrightarrow> dict_get (AList.delete k d) k' dflt = dict_get d k' dflt"
  by (simp add: dict_get_def)

subsection \<open>What a successful run of the AWS generator has computed\<close>

lemma aws_success:
  assumes "get_aws_provider_config environment pid pool cfg worker_images defaults0 = Inr r"
  shows "\<exists>regions image_name img instance_types defaults default_lifecycle wc_rule wc rs lcss
            max_capacity.
     map_of cfg ''regions'' = Some regions \<and>
     map_of cfg ''image'' = Some image_name \<and>
     worker_images image_name = Inr img \<and>
     map_of cfg ''instance_types'' = Some instance_types \<and>
     evaluate_keyed_by defaults0 ''defaults'' [(''provider'', pid)] = Inr defaults \<and>
     py_get defaults ''lifecycle'' (JDict []) = Inr default_lifecycle \<and>
     py_get defaults ''worker-config'' (JDict []) = Inr wc_rule \<and>
     evaluate_keyed_by wc_rule pool
        [(''implementation'', dict_get cfg ''implementation'' (JStr ''docker-worker''))] = Inr wc \<and>
     validate_instance_capacity pool (dict_get cfg ''implementation'' (JStr ''docker-worker''))
        instance_types = Inr () \<and>
     py_iter regions = Inr rs \<and>
     mapE (aws_region_loop img pid pool (dict_get cfg ''implementation'' (JStr ''docker-worker''))
             (merge [wc, dict_get cfg ''worker-config'' (JDict [])])
             (dict_get cfg ''additional-user-data'' (JDict []))
             (dict_get cfg ''spot'' (JBool True)) (aws_config environment) instance_types
             (dict_get cfg ''security'' (JStr ''untrusted''))) rs = Inr lcss \<and>
     map_of cfg ''maxCapacity'' = Some max_capacity \<and>
     r = [(''minCapacity'', dict_get cfg ''minCapacity'' (JInt 0)),
          (''maxCapacity'', max_capacity),
          (''lifecycle'', merge [default_lifecycle, dict_get cfg ''lifecycle'' (JDict [])]),
          (''launchConfigs'', JList (concat lcss))]"
  using assms
  by (auto simp: get_aws_provider_config_def bindE_eq_Inr dict_getitem_eq_Inr dict_pop_eq_Inr
      dict_pop_default_eq dict_get_delete Let_def)

subsection \<open>What a successful run of the Azure or the Google generator has computed\<close>

lemma azure_success:
  assumes "get_azure_provider_config environment pid pool cfg worker_images defaults0 = Inr r"
  shows "\<exists>locations image_rgroup vmSizes purpose image_name img defaults default_lifecycle
            wc_rule wc ls lcss max_capacity.
     map_of cfg ''locations'' = Some locations \<and>
     map_of cfg ''image_resource_group'' = Some image_rgroup \<and>
     map_of cfg ''vmSizes'' = Some vmSizes \<and>
     map_of cfg ''worker-purpose'' = Some purpose \<and>
     map_of cfg ''image'' = Some image_name \<and>
     worker_images image_name = Inr img \<and>
     evaluate_keyed_by defaults0 ''defaults'' [(''provider'', pid)] = Inr defaults \<and>
     py_get defaults ''lifecycle'' (JDict []) = Inr default_lifecycle \<and>
     py_get defaults ''worker-config'' (JDict []) = Inr wc_rule \<and>
     evaluate_keyed_by wc_rule pool
        [(''implementation'',
          dict_get cfg ''implementation'' (JStr ''generic-worker/worker-runner-windows''))]
        = Inr wc \<and>
     py_iter locations = Inr ls \<and>
     mapE (azure_location_loop img pid (azure_config environment) image_rgroup purpose
             (dict_get cfg ''tags'' (JDict []))
             (merge [wc, dict_get cfg ''worker-config'' (JDict [])]) vmSizes) ls = Inr lcss \<and>
     map_of cfg ''maxCapacity'' = Some max_capacity \<and>
     r = [(''minCapacity'', dict_get cfg ''minCapacity'' (JInt 0)),
          (''maxCapacity'', max_capacity),
          (''lifecycle'', merge [default_lifecycle, dict_get cfg ''lifecycle'' (JDict [])]),
          (''launchConfigs'', JList (concat lcss))]"
  using assms
  by (auto simp: get_azure_provider_config_def bindE_eq_Inr dict_getitem_eq_Inr dict_pop_eq_Inr
      dict_pop_default_eq dict_get_delete Let_def)

lemma google_success:
  assumes "get_google_provider_config environment pid pool cfg worker_images defaults0 = Inr r"
  shows "\<exists>regions image_name0 img instance_types defaults default_lifecycle wc_rule wc
            image_name rs lcss max_capacity.
     map_of cfg ''regions'' = Some regions \<and>
     map_of cfg ''image'' = Some image_name0 \<and>
     worker_images image_name0 = Inr img \<and>
     map_of cfg ''instance_types'' = Some instance_types \<and>
     evaluate_keyed_by defaults0 ''defaults'' [(''provider'', pid)] = Inr defaults \<and>
     py_get defaults ''lifecycle'' (JDict []) = Inr default_lifecycle \<and>
     py_get defaults ''worker-config'' (JDict []) = Inr wc_rule \<and>
     evaluate_keyed_by wc_rule pool
        [(''implementation'', dict_get cfg ''implementation'' (JStr ''docker-worker''))] = Inr wc \<and>
     img pid None = Inr image_name \<and>
     validate_instance_capacity pool (dict_get cfg ''implementation'' (JStr ''docker-worker''))
        instance_types = Inr () \<and>
     py_iter regions = Inr rs \<and>
     mapE (google_region_loop (google_config environment) pool image_name
             (dict_get cfg ''implementation'' (JStr ''docker-worker''))
             (merge [wc, dict_get cfg ''worker-config'' (JDict [])]) instance_types) rs
       = Inr lcss \<and>
     map_of cfg ''maxCapacity'' = Some max_capacity \<and>
     r = [(''minCapacity'', dict_get cfg ''minCapacity'' (JInt 0)),
          (''maxCapacity'', max_capacity),
          (''lifecycle'', merge [default_lifecycle, dict_get cfg ''lifecycle'' (JDict [])]),
          (''launchConfigs'', JList (concat lcss))]"
  using assms
  by (auto simp: get_google_provider_config_def bindE_eq_Inr dict_getitem_eq_Inr dict_pop_eq_Inr
      dict_pop_default_eq dict_get_delete Let_def)



subsection \<open>Instance types without a dot\<close>

lemma split_dot_no_dot: "CHR ''.'' \<notin> set s \<Longrightarrow> split_dot s = [s]"
  by (simp add: split_dot_def)

lemma is_invalid_no_dot:
  "CHR ''.'' \<notin> set s \<Longrightarrow>
   is_invalid_aws_instance_type invalid_instances zone (JStr s)
     = Inl (ValueError NotEnoughValuesToUnpack)"
  by (simp add: is_invalid_aws_instance_type_def split_dot_no_dot)

lemma aws_launch_config_no_dot:
  assumes "CHR ''.'' \<notin> set s" and "py_getitem instance_type ''instanceType'' = Inr (JStr s)"
  shows "isl (aws_launch_config img pid impl wc ud spot aws_cfg region sgs zone subnet instance_type)"
proof (cases "py_getitem aws_cfg ''invalid-instances''")
  case (Inl e)
  then show ?thesis by (simp add: aws_launch_config_def)
next
  case (Inr tbl)
  then show ?thesis
    using assms by (simp add: aws_launch_config_def is_invalid_no_dot)
qed

text \<open>
  C10. An instance-type string without a dot makes the invalid-instance check fail: the
  split gives one piece where two are unpacked, a ValueError. The loop body raises for
  such an instance type, whatever the table holds, and so does the AWS generator
  whenever its loops reach the instance type (a first region with a first zone): the
  instance type is neither skipped nor accepted.
\<close>

theorem aws_instance_type_without_dot_raises:
  assumes nodot: "CHR ''.'' \<notin> set s"
    and itype: "py_getitem instance_type ''instanceType'' = Inr (JStr s)"
  shows "is_invalid_aws_instance_type invalid_instances zone (JStr s)
           = Inl (ValueError NotEnoughValuesToUnpack)
       \<and> isl (aws_launch_config img pid impl wc ud spot aws_cfg region sgs zone subnet instance_type)
       \<and> (map_of cfg ''regions'' = Some (JList (region # regions)) \<and>
          map_of cfg ''instance_types'' = Some (JList its) \<and> instance_type \<in> set its \<and>
          py_getitem (aws_config env) ''availability-zones'' = Inr az_rule \<and>
          evaluate_keyed_by az_rule pool [(''region'', region)] = Inr (JList (zone # zones))
          \<longrightarrow> isl (get_aws_provider_config env pid pool cfg imgs worker_defaults))"
proof (intro conjI impI)
  show "is_invalid_aws_instance_type invalid_instances zone (JStr s)
           = Inl (ValueError NotEnoughValuesToUnpack)"
    using nodot by (rule is_invalid_no_dot)
  show "isl (aws_launch_config img pid impl wc ud spot aws_cfg region sgs zone subnet instance_type)"
    using nodot itype by (rule aws_launch_config_no_dot)
  assume reach: "map_of cfg ''regions'' = Some (JList (region # regions)) \<and>
          map_of cfg ''instance_types'' = Some (JList its) \<and> instance_type \<in> set its \<and>
          py_getitem (aws_config env) ''availability-zones'' = Inr az_rule \<and>
          evaluate_keyed_by az_rule pool [(''region'', region)] = Inr (JList (zone # zones))"
  show "isl (get_aws_provider_config env pid pool cfg imgs worker_defaults)"
  proof (rule ccontr)
    assume "\<not> isl (get_aws_provider_config env pid pool cfg imgs worker_defaults)"
    then obtain r where "get_aws_provider_config env pid pool cfg imgs worker_defaults = Inr r"
      by (auto simp: not_isl_iff)
    from aws_success [OF this] reach
    obtain img impl wc ud spot sec lcss where
      loop: "mapE (aws_region_loop img pid pool impl wc ud spot (aws_config env) (JList its) sec)
               (region # regions) = Inr lcss"
      by (auto simp: py_iter_def)
    then obtain lcs where
      "aws_region_loop img pid pool impl wc ud spot (aws_config env) (JList its) sec region = Inr lcs"
      by (auto simp: bindE_eq_Inr)
    with reach obtain sgs lcss' where
      "mapE (aws_zone_loop img pid pool impl wc ud spot (aws_config env) (JList its) region sgs)
          (zone # zones) = Inr lcss'"
      by (auto simp: aws_region_loop_def bindE_eq_Inr py_iter_def)
    then obtain lcs' where
      "aws_zone_loop img pid pool impl wc ud spot (aws_config env) (JList its) region sgs zone
         = Inr lcs'"
      by (auto simp: bindE_eq_Inr)
    then obtain subnet ys where
      "mapE (aws_launch_config img pid impl wc ud spot (aws_config env) region sgs zone subnet) its
         = Inr ys"
      by (auto simp: aws_zone_loop_def bindE_eq_Inr py_iter_def)
    with reach obtain y where
      "aws_launch_config img pid impl wc ud spot (aws_config env) region sgs zone subnet
         instance_type = Inr y"
      by (blast dest: mapE_Inr_member)
    with aws_launch_config_no_dot [OF nodot itype,
        of img pid impl wc ud spot "aws_config env" region sgs zone subnet]
    show False by simp
  qed
qed

theorem aws_instance_type_without_dot_raises_witness:
  "is_invalid_aws_instance_type (JList []) (JStr ''us-east-1a'') (JStr ''metal'')
     = Inl (ValueError NotEnoughValuesToUnpack)
   \<and> isl (get_aws_provider_config environment_ex (JStr ''aws'') ''pool''
             [(''regions'', JList [JStr ''us-east-1'']),
              (''image'', JStr ''img''),
              (''instance_types'', JList [JDict [(''instanceType'', JStr ''metal'')]]),
              (''maxCapacity'', JInt 5)]
             worker_images_ex (JDict []))"
  using aws_instance_type_without_dot_raises
    [where s = "''metal''" and instance_type = "JDict [(''instanceType'', JStr ''metal'')]"
       and invalid_instances = "JList []" and zone = "JStr ''us-east-1a''"
       and region = "JStr ''us-east-1''" and regions = "[]" and zones = "[]"
       and its = "[JDict [(''instanceType'', JStr ''metal'')]]"
       and env = environment_ex and pool = "''pool''"
       and az_rule = "JDict [(''by-region'', JDict [(''us-east-1'', JList [JStr ''us-east-1a''])])]"
       and cfg = "[(''regions'', JList [JStr ''us-east-1'']),
              (''image'', JStr ''img''),
              (''instance_types'', JList [JDict [(''instanceType'', JStr ''metal'')]]),
              (''maxCapacity'', JInt 5)]"
       and pid = "JStr ''aws''" and imgs = worker_images_ex and worker_defaults = "JDict []"]
  by (simp add: py_getitem_def dict_getitem_def environment_ex_def lookup_branch_def)

subsection \<open>Merging\<close>

lemma map_of_merge_items:
  "map_of (merge_items a b) k =
     (case map_of a k of
        None \<Rightarrow> None
      | Some va \<Rightarrow> Some (case map_of b k of None \<Rightarrow> va | Some vb \<Rightarrow> merge_json va vb))"
  by (induction a) (auto split: option.splits)

lemma map_of_filter_new:
  "map_of (filter (\<lambda>kv. map_of a (fst kv) = None) b) k
     = (if map_of a k = None then map_of b k else None)"
  by (induction b) auto

lemma map_of_merge_json:
  "merge_json (JDict a) (JDict b) = JDict d \<Longrightarrow>
   map_of d k =
     (case map_of a k of
        None \<Rightarrow> map_of b k
      | Some va \<Rightarrow> Some (case map_of b k of None \<Rightarrow> va | Some vb \<Rightarrow> merge_json va vb))"
proof -
  assume "merge_json (JDict a) (JDict b) = JDict d"
  then have d: "d = merge_items a b @ filter (\<lambda>kv. \<not> has_key (fst kv) a) b"
    by simp
  have "map_of d k =
      (case map_of (merge_items a b) k of
         None \<Rightarrow> map_of (filter (\<lambda>kv. \<not> has_key (fst kv) a) b) k
       | Some v \<Rightarrow> Some v)"
    unfolding d by (simp add: map_add_def split: option.splits)
  then show ?thesis
    by (simp add: map_of_merge_items map_of_filter_new has_key_def split: option.splits)
qed

lemma merge_json_scalar [simp]:
  "merge_json x JNull = JNull" "merge_json x (JBool b) = JBool b" "merge_json x (JInt i) = JInt i"
  "merge_json x (JStr s) = JStr s" "merge_json x (JList l) = JList l"
  by (cases x; simp)+

lemma merge_json_empty_left [simp]: "merge_json (JDict []) x = x"
  by (cases x) (simp_all add: has_key_def)

lemma merge_json_JDict_right: "\<exists>d. merge_json x (JDict b) = JDict d"
  by (cases x) simp_all

lemma merge_capacity:
  assumes "\<forall>d. v \<noteq> JDict d"
  shows "\<exists>d. merge [a, b, JDict [(''capacity'', v)]] = JDict d \<and> map_of d ''capacity'' = Some v"
proof -
  define x where "x = merge_json a b"
  have m: "merge [a, b, JDict [(''capacity'', v)]] = merge_json x (JDict [(''capacity'', v)])"
    by (simp add: merge_def x_def)
  have v: "merge_json y v = v" for y
    using assms by (cases v) simp_all
  show ?thesis
  proof (cases x)
    case (JDict xa)
    obtain d where d: "merge_json (JDict xa) (JDict [(''capacity'', v)]) = JDict d"
      using merge_json_JDict_right by blast
    from map_of_merge_json [OF d, of "''capacity''"] have "map_of d ''capacity'' = Some v"
      by (simp add: v split: option.splits)
    with d m JDict show ?thesis by simp
  qed (simp_all add: m)
qed

subsection \<open>The invalid-instance table\<close>

lemma py_eq_JStr: "py_eq (JStr z) y \<longleftrightarrow> y = JStr z"
  by (cases y) (auto simp: py_eq_def)

lemma py_in_JStr_JList: "py_in (JStr z) (JList ys) = Inr (JStr z \<in> set ys)"
  by (auto simp: py_in_def py_eq_JStr list_ex_iff)

lemma any_invalid_table:
  "list_all2 is_table_entry entries tbl \<Longrightarrow>
   any_invalid (JStr z) fam entries
     = Inr (list_ex (\<lambda>p. JStr z \<in> set (fst p) \<and> JStr fam \<in> set (snd p)) tbl)"
proof (induction rule: list_all2_induct)
  case Nil
  show ?case by simp
next
  case (Cons entry p entries tbl)
  then show ?case
    by (cases entry)
       (auto simp: is_table_entry_def py_getitem_def dict_getitem_def py_in_JStr_JList)
qed

lemma split_dot_dot:
  "CHR ''.'' \<in> set s \<Longrightarrow>
   split_dot s = [family_of s, tl (dropWhile (\<lambda>c. c \<noteq> CHR ''.'') s)]"
  by (simp add: split_dot_def family_of_def)

lemma is_invalid_table:
  assumes "list_all2 is_table_entry entries tbl" and "CHR ''.'' \<in> set s"
  shows "is_invalid_aws_instance_type (JList entries) (JStr z) (JStr s)
           = Inr (table_marks tbl z s)"
  using assms
  by (simp add: is_invalid_aws_instance_type_def split_dot_dot py_iter_def any_invalid_table
      table_marks_def)

lemma aws_launch_config_skip_iff:
  assumes "py_getitem aws_cfg ''invalid-instances'' = Inr tbl"
    and "py_getitem instance_type ''instanceType'' = Inr t"
    and "is_invalid_aws_instance_type tbl zone t = Inr b"
  shows "aws_launch_config img pid impl wc ud spot aws_cfg region sgs zone subnet instance_type
           = Inr None \<longleftrightarrow> b"
proof (cases b)
  case True
  with assms show ?thesis by (simp add: aws_launch_config_def)
next
  case False
  with assms show ?thesis
    by (auto simp: aws_launch_config_def bindE_eq_Inr Let_def)
qed

lemma is_invalid_InrD:
  assumes "is_invalid_aws_instance_type tbl zone t = Inr b"
  shows "\<exists>s. t = JStr s \<and> CHR ''.'' \<in> set s"
proof (cases t)
  case (JStr s)
  have "CHR ''.'' \<in> set s"
  proof (rule ccontr)
    assume "CHR ''.'' \<notin> set s"
    then have "is_invalid_aws_instance_type tbl zone (JStr s)
        = Inl (ValueError NotEnoughValuesToUnpack)"
      by (rule is_invalid_no_dot)
    with assms JStr show False by simp
  qed
  with JStr show ?thesis by simp
qed (use assms in \<open>simp_all add: is_invalid_aws_instance_type_def\<close>)

lemma aws_launch_config_table:
  assumes cfg: "py_getitem aws_cfg ''invalid-instances'' = Inr (JList entries)"
    and wf: "list_all2 is_table_entry entries tbl"
    and res: "aws_launch_config img pid impl wc ud spot aws_cfg region sgs (JStr z) subnet
                instance_type = Inr r"
  shows "r = None \<longleftrightarrow> table_marks tbl z (instance_type_name instance_type)"
proof -
  from res cfg obtain t b where
    t: "py_getitem instance_type ''instanceType'' = Inr t"
    and b: "is_invalid_aws_instance_type (JList entries) (JStr z) t = Inr b"
    by (auto simp: aws_launch_config_def bindE_eq_Inr)
  from is_invalid_InrD [OF b] obtain s where s: "t = JStr s" "CHR ''.'' \<in> set s"
    by blast
  with b wf have "b = table_marks tbl z s"
    by (simp add: is_invalid_table)
  moreover have "instance_type_name instance_type = s"
    using t s by (simp add: instance_type_name_def)
  moreover have "r = None \<longleftrightarrow> b"
    using aws_launch_config_skip_iff [OF cfg t b, of img pid impl wc ud spot region sgs subnet] res
    by simp
  ultimately show ?thesis by simp
qed

lemma length_somes:
  assumes "list_all2 (\<lambda>x r. r = None \<longleftrightarrow> P x) xs rs"
  shows "length (somes rs) = length (filter (\<lambda>x. \<not> P x) xs)"
  using assms
  by (induction rule: list_all2_induct) (auto simp: somes_def split: option.splits)

lemma aws_zone_loop_count:
  assumes cfg: "py_getitem aws_cfg ''invalid-instances'' = Inr (JList entries)"
    and wf: "list_all2 is_table_entry entries tbl"
    and res: "aws_zone_loop img pid pool impl wc ud spot aws_cfg (JList its) region sgs (JStr z)
                = Inr lcs"
  shows "length lcs
       = length (filter (\<lambda>it. \<not> table_marks tbl z (instance_type_name it)) its)"
proof -
  from res obtain subnet rs where
    rs: "mapE (aws_launch_config img pid impl wc ud spot aws_cfg region sgs (JStr z) subnet) its
           = Inr rs"
    and lcs: "lcs = somes rs"
    by (auto simp: aws_zone_loop_def bindE_eq_Inr py_iter_def)
  from rs have "list_all2 (\<lambda>it r. aws_launch_config img pid impl wc ud spot aws_cfg region sgs
                    (JStr z) subnet it = Inr r) its rs"
    by (simp add: mapE_eq_Inr)
  then have "list_all2 (\<lambda>it r. r = None \<longleftrightarrow> table_marks tbl z (instance_type_name it)) its rs"
    by (rule list_all2_mono) (rule aws_launch_config_table [OF cfg wf])
  then show ?thesis
    unfolding lcs by (rule length_somes)
qed

lemma aws_launch_config_Some:
  assumes "aws_launch_config img pid impl wc ud spot aws_cfg region sgs zone subnet it
             = Inr (Some lc)"
  shows "\<exists>d lcfg aud. it = JDict d \<and>
     lc = JDict [(''capacityPerInstance'', dict_get d ''capacityPerInstance'' (JInt 1)),
                 (''region'', region),
                 (''launchConfig'', lcfg),
                 (''workerConfig'',
                    if impl = JStr ''docker-worker''
                    then merge [wc, dict_get d ''worker-config'' (JDict []),
                                JDict [(''capacity'', dict_get d ''capacityPerInstance'' (JInt 1))]]
                    else merge [wc, dict_get d ''worker-config'' (JDict [])]),
                 (''additionalUserData'', JDict aud)]"
proof (cases it)
  case (JDict d)
  with assms show ?thesis
    by (auto simp: aws_launch_config_def bindE_eq_Inr py_get_def split: if_splits)
qed (use assms in \<open>auto simp: aws_launch_config_def bindE_eq_Inr py_getitem_def\<close>)

lemma aws_single_zone:
  assumes success: "get_aws_provider_config env pid pool cfg imgs dflts = Inr r"
    and regions: "map_of cfg ''regions'' = Some (JList [region])"
    and az_rule: "py_getitem (aws_config env) ''availability-zones'' = Inr az_rule"
    and azs: "evaluate_keyed_by az_rule pool [(''region'', region)] = Inr (JList [zone])"
    and its: "map_of cfg ''instance_types'' = Some (JList its)"
  shows "\<exists>img wc sgs subnet rs.
     mapE (aws_launch_config img pid (dict_get cfg ''implementation'' (JStr ''docker-worker''))
             wc (dict_get cfg ''additional-user-data'' (JDict []))
             (dict_get cfg ''spot'' (JBool True)) (aws_config env) region sgs zone subnet) its
       = Inr rs
     \<and> map_of r ''launchConfigs'' = Some (JList (somes rs))"
proof -
  from aws_success [OF success] regions its
  obtain img wc lcss where
    loop: "mapE (aws_region_loop img pid pool (dict_get cfg ''implementation'' (JStr ''docker-worker''))
             wc (dict_get cfg ''additional-user-data'' (JDict []))
             (dict_get cfg ''spot'' (JBool True)) (aws_config env) (JList its)
             (dict_get cfg ''security'' (JStr ''untrusted''))) [region] = Inr lcss"
    and r: "map_of r ''launchConfigs'' = Some (JList (concat lcss))"
    by (auto simp: py_iter_def)
  from loop obtain lcs where
    region: "aws_region_loop img pid pool (dict_get cfg ''implementation'' (JStr ''docker-worker''))
             wc (dict_get cfg ''additional-user-data'' (JDict []))
             (dict_get cfg ''spot'' (JBool True)) (aws_config env) (JList its)
             (dict_get cfg ''security'' (JStr ''untrusted'')) region = Inr lcs"
    and lcss: "lcss = [lcs]"
    by (auto simp: bindE_eq_Inr)
  from region az_rule azs obtain sgs lcs' where
    zone: "aws_zone_loop img pid pool (dict_get cfg ''implementation'' (JStr ''docker-worker''))
             wc (dict_get cfg ''additional-user-data'' (JDict []))
             (dict_get cfg ''spot'' (JBool True)) (aws_config env) (JList its) region sgs zone
             = Inr lcs'"
    and lcs: "lcs = lcs'"
    by (auto simp: aws_region_loop_def bindE_eq_Inr py_iter_def)
  from zone obtain subnet rs where
    rs: "mapE (aws_launch_config img pid (dict_get cfg ''implementation'' (JStr ''docker-worker''))
             wc (dict_get cfg ''additional-user-data'' (JDict []))
             (dict_get cfg ''spot'' (JBool True)) (aws_config env) region sgs zone subnet) its
       = Inr rs"
    and lcs': "lcs' = somes rs"
    by (auto simp: aws_zone_loop_def bindE_eq_Inr py_iter_def)
  from r lcss lcs lcs' have "map_of r ''launchConfigs'' = Some (JList (somes rs))"
    by simp
  with rs show ?thesis by blast
qed

text \<open>
  C6. With a well-formed table of invalid instances, the check on an instance-type
  string that has a dot returns whether the table marks it in the zone: some entry lists
  the zone among its zones and the family among its families. The loop body skips the
  instance type (no launch configuration, no error) exactly then. So a zone's loop
  that succeeds appends one launch configuration for each instance type that is not
  marked, and with one region of one zone that is the generator's whole list.
\<close>

theorem aws_skips_invalid_instance_types:
  assumes cfg: "py_getitem (aws_config env) ''invalid-instances'' = Inr (JList entries)"
    and wf: "list_all2 is_table_entry entries tbl"
  shows "(CHR ''.'' \<in> set s \<longrightarrow>
            is_invalid_aws_instance_type (JList entries) (JStr z) (JStr s)
              = Inr (table_marks tbl z s))
       \<and> (CHR ''.'' \<in> set s \<and> py_getitem instance_type ''instanceType'' = Inr (JStr s) \<longrightarrow>
            (aws_launch_config img pid impl wc ud spot (aws_config env) region sgs (JStr z) subnet
               instance_type = Inr None \<longleftrightarrow> table_marks tbl z s))
       \<and> (aws_zone_loop img pid pool impl wc ud spot (aws_config env) (JList its) region sgs
             (JStr z) = Inr lcs \<longrightarrow>
            length lcs
              = length (filter (\<lambda>it. \<not> table_marks tbl z (instance_type_name it)) its))
       \<and> (get_aws_provider_config env pid pool pool_cfg imgs dflts = Inr r \<and>
          map_of pool_cfg ''regions'' = Some (JList [region]) \<and>
          py_getitem (aws_config env) ''availability-zones'' = Inr az_rule \<and>
          evaluate_keyed_by az_rule pool [(''region'', region)] = Inr (JList [JStr z]) \<and>
          map_of pool_cfg ''instance_types'' = Some (JList its) \<longrightarrow>
            (\<exists>configs. map_of r ''launchConfigs'' = Some (JList configs) \<and>
               length configs
                 = length (filter (\<lambda>it. \<not> table_marks tbl z (instance_type_name it)) its)))"
proof (intro conjI impI)
  assume "CHR ''.'' \<in> set s"
  with wf show "is_invalid_aws_instance_type (JList entries) (JStr z) (JStr s)
              = Inr (table_marks tbl z s)"
    by (rule is_invalid_table)
next
  assume a: "CHR ''.'' \<in> set s \<and> py_getitem instance_type ''instanceType'' = Inr (JStr s)"
  then have "is_invalid_aws_instance_type (JList entries) (JStr z) (JStr s)
              = Inr (table_marks tbl z s)"
    using wf by (simp add: is_invalid_table)
  with cfg a show "aws_launch_config img pid impl wc ud spot (aws_config env) region sgs (JStr z)
               subnet instance_type = Inr None \<longleftrightarrow> table_marks tbl z s"
    by (simp add: aws_launch_config_skip_iff)
next
  assume "aws_zone_loop img pid pool impl wc ud spot (aws_config env) (JList its) region sgs
             (JStr z) = Inr lcs"
  with cfg wf show "length lcs
              = length (filter (\<lambda>it. \<not> table_marks tbl z (instance_type_name it)) its)"
    by (rule aws_zone_loop_count)
next
  assume a: "get_aws_provider_config env pid pool pool_cfg imgs dflts = Inr r \<and>
          map_of pool_cfg ''regions'' = Some (JList [region]) \<and>
          py_getitem (aws_config env) ''availability-zones'' = Inr az_rule \<and>
          evaluate_keyed_by az_rule pool [(''region'', region)] = Inr (JList [JStr z]) \<and>
          map_of pool_cfg ''instance_types'' = Some (JList its)"
  then obtain img' wc' sgs' subnet' rs where
    rs: "mapE (aws_launch_config img' pid
             (dict_get pool_cfg ''implementation'' (JStr ''docker-worker''))
             wc' (dict_get pool_cfg ''additional-user-data'' (JDict []))
             (dict_get pool_cfg ''spot'' (JBool True)) (aws_config env) region sgs' (JStr z)
             subnet') its = Inr rs"
    and r: "map_of r ''launchConfigs'' = Some (JList (somes rs))"
    using aws_single_zone [of env pid pool pool_cfg imgs dflts r region az_rule "JStr z" its]
    by blast
  from rs have "list_all2 (\<lambda>it r. aws_launch_config img' pid
             (dict_get pool_cfg ''implementation'' (JStr ''docker-worker''))
             wc' (dict_get pool_cfg ''additional-user-data'' (JDict []))
             (dict_get pool_cfg ''spot'' (JBool True)) (aws_config env) region sgs' (JStr z)
             subnet' it = Inr r) its rs"
    by (simp add: mapE_eq_Inr)
  then have "list_all2 (\<lambda>it r. r = None \<longleftrightarrow> table_marks tbl z (instance_type_name it)) its rs"
    by (rule list_all2_mono) (rule aws_launch_config_table [OF cfg wf])
  then have "length (somes rs)
      = length (filter (\<lambda>it. \<not> table_marks tbl z (instance_type_name it)) its)"
    by (rule length_somes)
  with r show "\<exists>configs. map_of r ''launchConfigs'' = Some (JList configs) \<and>
               length configs
                 = length (filter (\<lambda>it. \<not> table_marks tbl z (instance_type_name it)) its)"
    by blast
qed

theorem aws_skips_invalid_instance_types_witness:
  "is_invalid_aws_instance_type
      (JList [JDict [(''zones'', JList [JStr ''us-east-1a'']), (''families'', JList [JStr ''m5''])]])
      (JStr ''us-east-1a'') (JStr ''m5.large'') = Inr True
   \<and> is_invalid_aws_instance_type
      (JList [JDict [(''zones'', JList [JStr ''us-east-1a'']), (''families'', JList [JStr ''m5''])]])
      (JStr ''us-east-1a'') (JStr ''c5.large'') = Inr False
   \<and> \<not> isl (get_aws_provider_config environment_ex (JStr ''aws'') ''pool''
               (aws_pool_config_ex ''m5.large'' ''c5.large'') worker_images_ex (JDict []))
   \<and> map (\<lambda>lc. Option.bind (field ''launchConfig'' lc) (field ''InstanceType''))
         (launch_configs (get_aws_provider_config environment_ex (JStr ''aws'') ''pool''
            (aws_pool_config_ex ''m5.large'' ''c5.large'') worker_images_ex (JDict [])))
       = [Some (JStr ''c5.large'')]"
  using aws_skips_invalid_instance_types
    [where env = environment_ex
       and entries = "[JDict [(''zones'', JList [JStr ''us-east-1a'']),
                              (''families'', JList [JStr ''m5''])]]"
       and tbl = "[([JStr ''us-east-1a''], [JStr ''m5''])]"
       and z = "''us-east-1a''" and s = "''m5.large''"]
    aws_skips_invalid_instance_types
    [where env = environment_ex
       and entries = "[JDict [(''zones'', JList [JStr ''us-east-1a'']),
                              (''families'', JList [JStr ''m5''])]]"
       and tbl = "[([JStr ''us-east-1a''], [JStr ''m5''])]"
       and z = "''us-east-1a''" and s = "''c5.large''"]
  by (simp add: get_aws_provider_config_def aws_pool_config_ex_def worker_images_ex_def
      environment_ex_def dict_pop_def dict_getitem_def dict_pop_default_def py_get_def
      dict_get_def merge_def validate_instance_capacity_def py_iter_def
      validate_instance_type_def py_in_def has_key_def ne_one_def py_eq_def
      aws_region_loop_def py_getitem_def lookup_branch_def aws_zone_loop_def
      aws_launch_config_def is_invalid_aws_instance_type_def split_dot_def dict_update_def
      truthy_def py_setitem_def somes_def is_table_entry_def table_marks_def family_of_def
      launch_configs_def field_def)

subsection \<open>Two instance types\<close>

lemma aws_launch_config_not_skipped:
  assumes "py_getitem aws_cfg ''invalid-instances'' = Inr tbl"
    and "py_getitem it ''instanceType'' = Inr t"
    and "is_invalid_aws_instance_type tbl zone t = Inr False"
    and "aws_launch_config img pid impl wc ud spot aws_cfg region sgs zone subnet it = Inr r"
  shows "\<exists>lc. r = Some lc"
  using aws_launch_config_skip_iff [OF assms(1-3), of img pid impl wc ud spot region sgs subnet]
    assms(4)
  by (cases r) simp_all

lemma aws_launch_config_capacity:
  assumes "aws_launch_config img pid impl wc ud spot aws_cfg region sgs zone subnet it
             = Inr (Some lc)"
  shows "\<exists>l. lc = JDict l
       \<and> (py_in (JStr ''capacityPerInstance'') it = Inr False
            \<longrightarrow> map_of l ''capacityPerInstance'' = Some (JInt 1))
       \<and> (impl = JStr ''docker-worker'' \<and> py_in (JStr ''capacityPerInstance'') it = Inr False
            \<longrightarrow> (\<exists>w. map_of l ''workerConfig'' = Some (JDict w)
                     \<and> map_of w ''capacity'' = Some (JInt 1)))"
proof -
  from aws_launch_config_Some [OF assms] obtain d lcfg aud where
    it: "it = JDict d"
    and lc: "lc = JDict [(''capacityPerInstance'', dict_get d ''capacityPerInstance'' (JInt 1)),
                 (''region'', region),
                 (''launchConfig'', lcfg),
                 (''workerConfig'',
                    if impl = JStr ''docker-worker''
                    then merge [wc, dict_get d ''worker-config'' (JDict []),
                                JDict [(''capacity'', dict_get d ''capacityPerInstance'' (JInt 1))]]
                    else merge [wc, dict_get d ''worker-config'' (JDict [])]),
                 (''additionalUserData'', JDict aud)]"
    by blast
  have absent: "dict_get d ''capacityPerInstance'' (JInt 1) = JInt 1"
    if "py_in (JStr ''capacityPerInstance'') it = Inr False"
    using that it by (simp add: py_in_def has_key_def dict_get_def)
  have "\<exists>w. merge [wc, dict_get d ''worker-config'' (JDict []), JDict [(''capacity'', JInt 1)]]
            = JDict w \<and> map_of w ''capacity'' = Some (JInt 1)"
    by (rule merge_capacity) simp
  with lc absent show ?thesis by auto
qed

text \<open>
  C5. When the AWS generator succeeds for a pool of one region, whose rule gives one
  availability zone, and of two instance types that the invalid-instance check lets
  pass, it returns exactly two launch configurations. One made from an instance type
  without a \<^verbatim>\<open>capacityPerInstance\<close> has that key with the value 1, and when the
  implementation is \<^verbatim>\<open>docker-worker\<close>, which it is by default, its worker
  configuration has \<^verbatim>\<open>capacity\<close> 1.
\<close>

theorem aws_two_instance_types:
  assumes success: "get_aws_provider_config env pid pool cfg imgs dflts = Inr r"
    and regions: "map_of cfg ''regions'' = Some (JList [region])"
    and az_rule: "py_getitem (aws_config env) ''availability-zones'' = Inr az_rule"
    and azs: "evaluate_keyed_by az_rule pool [(''region'', region)] = Inr (JList [zone])"
    and its: "map_of cfg ''instance_types'' = Some (JList [it1, it2])"
    and tbl: "py_getitem (aws_config env) ''invalid-instances'' = Inr tbl"
    and t1: "py_getitem it1 ''instanceType'' = Inr t1"
    and ok1: "is_invalid_aws_instance_type tbl zone t1 = Inr False"
    and t2: "py_getitem it2 ''instanceType'' = Inr t2"
    and ok2: "is_invalid_aws_instance_type tbl zone t2 = Inr False"
  shows "\<exists>lc1 lc2.
      map_of r ''launchConfigs'' = Some (JList [JDict lc1, JDict lc2])
    \<and> (py_in (JStr ''capacityPerInstance'') it1 = Inr False
         \<longrightarrow> map_of lc1 ''capacityPerInstance'' = Some (JInt 1))
    \<and> (py_in (JStr ''capacityPerInstance'') it2 = Inr False
         \<longrightarrow> map_of lc2 ''capacityPerInstance'' = Some (JInt 1))
    \<and> (dict_get cfg ''implementation'' (JStr ''docker-worker'') = JStr ''docker-worker''
         \<and> py_in (JStr ''capacityPerInstance'') it1 = Inr False
         \<longrightarrow> (\<exists>w. map_of lc1 ''workerConfig'' = Some (JDict w)
                  \<and> map_of w ''capacity'' = Some (JInt 1)))
    \<and> (dict_get cfg ''implementation'' (JStr ''docker-worker'') = JStr ''docker-worker''
         \<and> py_in (JStr ''capacityPerInstance'') it2 = Inr False
         \<longrightarrow> (\<exists>w. map_of lc2 ''workerConfig'' = Some (JDict w)
                  \<and> map_of w ''capacity'' = Some (JInt 1)))"
proof -
  define impl where "impl = dict_get cfg ''implementation'' (JStr ''docker-worker'')"
  from aws_single_zone [OF success regions az_rule azs its]
  obtain img wc sgs subnet rs where
    rs: "mapE (aws_launch_config img pid impl wc (dict_get cfg ''additional-user-data'' (JDict []))
             (dict_get cfg ''spot'' (JBool True)) (aws_config env) region sgs zone subnet)
           [it1, it2] = Inr rs"
    and r: "map_of r ''launchConfigs'' = Some (JList (somes rs))"
    unfolding impl_def by blast
  from rs obtain r1 r2 where
    r1: "aws_launch_config img pid impl wc (dict_get cfg ''additional-user-data'' (JDict []))
             (dict_get cfg ''spot'' (JBool True)) (aws_config env) region sgs zone subnet it1
           = Inr r1"
    and r2: "aws_launch_config img pid impl wc (dict_get cfg ''additional-user-data'' (JDict []))
             (dict_get cfg ''spot'' (JBool True)) (aws_config env) region sgs zone subnet it2
           = Inr r2"
    and rs_eq: "rs = [r1, r2]"
    by (auto simp: bindE_eq_Inr)
  from aws_launch_config_not_skipped [OF tbl t1 ok1 r1] obtain c1 where c1: "r1 = Some c1" ..
  from aws_launch_config_not_skipped [OF tbl t2 ok2 r2] obtain c2 where c2: "r2 = Some c2" ..
  from aws_launch_config_capacity [OF r1 [unfolded c1]] obtain lc1 where
    lc1: "c1 = JDict lc1"
      "py_in (JStr ''capacityPerInstance'') it1 = Inr False
         \<longrightarrow> map_of lc1 ''capacityPerInstance'' = Some (JInt 1)"
      "impl = JStr ''docker-worker'' \<and> py_in (JStr ''capacityPerInstance'') it1 = Inr False
         \<longrightarrow> (\<exists>w. map_of lc1 ''workerConfig'' = Some (JDict w)
                  \<and> map_of w ''capacity'' = Some (JInt 1))"
    by blast
  from aws_launch_config_capacity [OF r2 [unfolded c2]] obtain lc2 where
    lc2: "c2 = JDict lc2"
      "py_in (JStr ''capacityPerInstance'') it2 = Inr False
         \<longrightarrow> map_of lc2 ''capacityPerInstance'' = Some (JInt 1)"
      "impl = JStr ''docker-worker'' \<and> py_in (JStr ''capacityPerInstance'') it2 = Inr False
         \<longrightarrow> (\<exists>w. map_of lc2 ''workerConfig'' = Some (JDict w)
                  \<and> map_of w ''capacity'' = Some (JInt 1))"
    by blast
  have "map_of r ''launchConfigs'' = Some (JList [JDict lc1, JDict lc2])"
    using r rs_eq c1 c2 lc1(1) lc2(1) by (simp add: somes_def)
  with lc1(2,3) lc2(2,3) show ?thesis
    unfolding impl_def by blast
qed

theorem aws_two_instance_types_witness:
  "\<not> isl (get_aws_provider_config environment_ex (JStr ''aws'') ''pool''
            (aws_pool_config_ex ''c5.large'' ''r5.large'') worker_images_ex (JDict []))
   \<and> map (field ''capacityPerInstance'')
         (launch_configs (get_aws_provider_config environment_ex (JStr ''aws'') ''pool''
            (aws_pool_config_ex ''c5.large'' ''r5.large'') worker_images_ex (JDict [])))
       = [Some (JInt 1), Some (JInt 1)]
   \<and> map (\<lambda>lc. Option.bind (field ''workerConfig'' lc) (field ''capacity''))
         (launch_configs (get_aws_provider_config environment_ex (JStr ''aws'') ''pool''
            (aws_pool_config_ex ''c5.large'' ''r5.large'') worker_images_ex (JDict [])))
       = [Some (JInt 1), Some (JInt 1)]"
  using aws_two_instance_types
    [where env = environment_ex and pid = "JStr ''aws''" and pool = "''pool''"
       and cfg = "aws_pool_config_ex ''c5.large'' ''r5.large''" and imgs = worker_images_ex
       and dflts = "JDict []" and region = "JStr ''us-east-1''" and zone = "JStr ''us-east-1a''"
       and ?it1.0 = "JDict [(''instanceType'', JStr ''c5.large'')]"
       and ?it2.0 = "JDict [(''instanceType'', JStr ''r5.large'')]"
       and ?t1.0 = "JStr ''c5.large''" and ?t2.0 = "JStr ''r5.large''"]
  by (simp add: get_aws_provider_config_def aws_pool_config_ex_def worker_images_ex_def
      environment_ex_def dict_pop_def dict_getitem_def dict_pop_default_def py_get_def
      dict_get_def merge_def validate_instance_capacity_def py_iter_def
      validate_instance_type_def py_in_def has_key_def ne_one_def py_eq_def
      aws_region_loop_def py_getitem_def lookup_branch_def aws_zone_loop_def
      aws_launch_config_def is_invalid_aws_instance_type_def split_dot_def dict_update_def
      truthy_def py_setitem_def somes_def launch_configs_def field_def)

subsection \<open>Capacity validation\<close>

lemma validate_loop_member:
  "validate_loop impl its = Inr u \<Longrightarrow> it \<in> set its \<Longrightarrow> validate_instance_type impl it = Inr ()"
  by (induction its) (auto simp: bindE_eq_Inr)


lemma validate_instance_type_JDict:
  "validate_instance_type impl (JDict d) = Inr () \<longleftrightarrow>
     \<not> has_key ''capacity'' d
     \<and> py_in (JStr ''capacity'') (dict_get d ''worker-config'' (JDict [])) = Inr False
     \<and> \<not> (ne_one (dict_get d ''capacityPerInstance'' (JInt 1)) \<and> impl \<noteq> JStr ''docker-worker'')"
  by (cases "py_in (JStr ''capacity'') (dict_get d ''worker-config'' (JDict []))")
     (auto simp: validate_instance_type_def py_in_def py_get_def)



lemma map_of_store_disks:
  "k \<noteq> ''disks'' \<Longrightarrow> map_of (store_disks disks ds l) k = map_of l k"
  by (cases disks) (simp_all add: store_disks_def AList.update_conv')

lemma google_launch_config_result:
  assumes "google_launch_config image_name impl wc region zone it = Inr lc"
  shows "\<exists>d l. it = JDict d \<and> lc = JDict l
           \<and> map_of l ''capacityPerInstance'' = Some (dict_get d ''capacityPerInstance'' (JInt 1))"
proof (cases it)
  case (JDict d)
  with assms show ?thesis
    by (auto simp: google_launch_config_def bindE_eq_Inr dict_pop_eq_Inr dict_pop_default_eq
        Let_def AList.update_conv' AList.delete_conv' map_of_store_disks)
qed (use assms in \<open>simp_all add: google_launch_config_def\<close>)







subsection \<open>The capacity of the launch configurations\<close>

lemma mapE_Inr_origin: "mapE f xs = Inr ys \<Longrightarrow> y \<in> set ys \<Longrightarrow> \<exists>x\<in>set xs. f x = Inr y"
  by (induction xs arbitrary: ys) (auto simp: bindE_eq_Inr)

lemma set_somes: "y \<in> set (somes rs) \<longleftrightarrow> Some y \<in> set rs"
  by (induction rs) (auto simp: somes_def split: option.splits)

lemma launch_configs_Inr:
  "map_of r ''launchConfigs'' = Some (JList l) \<Longrightarrow> launch_configs (Inr r) = l"
  by (simp add: launch_configs_def)

lemma launch_configs_member_success:
  "lc \<in> set (launch_configs res) \<Longrightarrow> \<exists>r. res = Inr r"
  by (cases res) (simp_all add: launch_configs_def)

lemma validate_instance_capacity_iter:
  assumes "validate_instance_capacity pool impl instance_types = Inr u"
    and "py_iter instance_types = Inr its" and "it \<in> set its"
  shows "validate_instance_type impl it = Inr ()"
  using assms by (auto simp: validate_instance_capacity_def dest: validate_loop_member)

lemma aws_config_origin:
  assumes success: "get_aws_provider_config env pid pool cfg imgs dflts = Inr r"
    and lc: "lc \<in> set (launch_configs (Inr r))"
  shows "\<exists>img wc ud spot region sgs zone subnet it.
           validate_instance_type (dict_get cfg ''implementation'' (JStr ''docker-worker'')) it
             = Inr ()
         \<and> aws_launch_config img pid (dict_get cfg ''implementation'' (JStr ''docker-worker''))
             wc ud spot (aws_config env) region sgs zone subnet it = Inr (Some lc)"
proof -
  define impl where "impl = dict_get cfg ''implementation'' (JStr ''docker-worker'')"
  from aws_success [OF success] obtain img wc ud spot sec instance_types rs lcss where
    valid: "validate_instance_capacity pool impl instance_types = Inr ()"
    and loop: "mapE (aws_region_loop img pid pool impl wc ud spot (aws_config env) instance_types
                 sec) rs = Inr lcss"
    and r: "map_of r ''launchConfigs'' = Some (JList (concat lcss))"
    unfolding impl_def by auto
  from lc r obtain lcs where lcs: "lcs \<in> set lcss" "lc \<in> set lcs"
    by (auto simp: launch_configs_Inr)
  from mapE_Inr_origin [OF loop lcs(1)] obtain region where
    "aws_region_loop img pid pool impl wc ud spot (aws_config env) instance_types sec region
       = Inr lcs"
    by blast
  then obtain sgs azs lcss' where
    zloop: "mapE (aws_zone_loop img pid pool impl wc ud spot (aws_config env) instance_types
              region sgs) azs = Inr lcss'"
    and lcs_eq: "lcs = concat lcss'"
    by (auto simp: aws_region_loop_def bindE_eq_Inr)
  from lcs(2) lcs_eq obtain lcs' where lcs': "lcs' \<in> set lcss'" "lc \<in> set lcs'"
    by auto
  from mapE_Inr_origin [OF zloop lcs'(1)] obtain zone where
    "aws_zone_loop img pid pool impl wc ud spot (aws_config env) instance_types region sgs zone
       = Inr lcs'"
    by blast
  then obtain subnet its ress where
    its: "py_iter instance_types = Inr its"
    and body: "mapE (aws_launch_config img pid impl wc ud spot (aws_config env) region sgs zone
                 subnet) its = Inr ress"
    and lcs'_eq: "lcs' = somes ress"
    by (auto simp: aws_zone_loop_def bindE_eq_Inr)
  from lcs'(2) lcs'_eq have "Some lc \<in> set ress"
    by (simp add: set_somes)
  from mapE_Inr_origin [OF body this] obtain it where
    it: "it \<in> set its"
    and made: "aws_launch_config img pid impl wc ud spot (aws_config env) region sgs zone subnet it
       = Inr (Some lc)"
    by blast
  from validate_instance_capacity_iter [OF valid its it] made show ?thesis
    unfolding impl_def by blast
qed

lemma google_config_origin:
  assumes success: "get_google_provider_config env pid pool cfg imgs dflts = Inr r"
    and lc: "lc \<in> set (launch_configs (Inr r))"
  shows "\<exists>image_name wc region zone it.
           validate_instance_type (dict_get cfg ''implementation'' (JStr ''docker-worker'')) it
             = Inr ()
         \<and> google_launch_config image_name
             (dict_get cfg ''implementation'' (JStr ''docker-worker'')) wc region zone it = Inr lc"
proof -
  define impl where "impl = dict_get cfg ''implementation'' (JStr ''docker-worker'')"
  from google_success [OF success] obtain image_name wc instance_types rs lcss where
    valid: "validate_instance_capacity pool impl instance_types = Inr ()"
    and loop: "mapE (google_region_loop (google_config env) pool image_name impl wc
                 instance_types) rs = Inr lcss"
    and r: "map_of r ''launchConfigs'' = Some (JList (concat lcss))"
    unfolding impl_def by auto
  from lc r obtain lcs where lcs: "lcs \<in> set lcss" "lc \<in> set lcs"
    by (auto simp: launch_configs_Inr)
  from mapE_Inr_origin [OF loop lcs(1)] obtain region where
    "google_region_loop (google_config env) pool image_name impl wc instance_types region
       = Inr lcs"
    by blast
  then obtain zs lcss' where
    zloop: "mapE (google_zone_loop image_name impl wc instance_types region) zs = Inr lcss'"
    and lcs_eq: "lcs = concat lcss'"
    by (auto simp: google_region_loop_def bindE_eq_Inr)
  from lcs(2) lcs_eq obtain lcs' where lcs': "lcs' \<in> set lcss'" "lc \<in> set lcs'"
    by auto
  from mapE_Inr_origin [OF zloop lcs'(1)] obtain zone where
    "google_zone_loop image_name impl wc instance_types region zone = Inr lcs'"
    by blast
  then obtain its where
    its: "py_iter instance_types = Inr its"
    and body: "mapE (google_launch_config image_name impl wc region zone) its = Inr lcs'"
    by (auto simp: google_zone_loop_def bindE_eq_Inr)
  from mapE_Inr_origin [OF body lcs'(2)] obtain it where
    it: "it \<in> set its"
    and made: "google_launch_config image_name impl wc region zone it = Inr lc"
    by blast
  from validate_instance_capacity_iter [OF valid its it] made show ?thesis
    unfolding impl_def by blast
qed

lemma azure_config_origin:
  assumes success: "get_azure_provider_config env pid pool cfg imgs dflts = Inr r"
    and lc: "lc \<in> set (launch_configs (Inr r))"
  shows "\<exists>img image_rgroup purpose tags wc location vmSizes sizes size.
           map_of cfg ''vmSizes'' = Some vmSizes \<and> py_iter vmSizes = Inr sizes
         \<and> size \<in> set sizes
         \<and> azure_launch_config img pid (azure_config env) image_rgroup purpose tags wc location size
             = Inr lc"
proof -
  from azure_success [OF success] obtain img image_rgroup purpose tags wc vmSizes ls lcss where
    sizes: "map_of cfg ''vmSizes'' = Some vmSizes"
    and loop: "mapE (azure_location_loop img pid (azure_config env) image_rgroup purpose tags wc
                 vmSizes) ls = Inr lcss"
    and r: "map_of r ''launchConfigs'' = Some (JList (concat lcss))"
    by auto
  from lc r obtain lcs where lcs: "lcs \<in> set lcss" "lc \<in> set lcs"
    by (auto simp: launch_configs_Inr)
  from mapE_Inr_origin [OF loop lcs(1)] obtain location where
    "azure_location_loop img pid (azure_config env) image_rgroup purpose tags wc vmSizes location
       = Inr lcs"
    by blast
  then obtain szs where
    szs: "py_iter vmSizes = Inr szs"
    and body: "mapE (azure_launch_config img pid (azure_config env) image_rgroup purpose tags wc
                 location) szs = Inr lcs"
    by (auto simp: azure_location_loop_def bindE_eq_Inr)
  from mapE_Inr_origin [OF body lcs(2)] obtain size where
    "size \<in> set szs"
    "azure_launch_config img pid (azure_config env) image_rgroup purpose tags wc location size
       = Inr lc"
    by blast
  with sizes szs show ?thesis by blast
qed

lemma merge_two: "merge [a, b] = merge_json a b"
  by (simp only: merge_def foldl.simps merge_json_empty_left)

lemma azure_base_capacity:
  "map_of (azure_base_launch_config subscription rg purpose tags wc l ImageId vmSize)
     ''capacityPerInstance'' = Some (JInt 1)"
  by (simp add: azure_base_launch_config_def Let_def)

lemma azure_launch_config_result:
  assumes "azure_launch_config img pid azure_cfg rg purpose tags wc location vmSize = Inr lc"
  shows "\<exists>base ov. py_get vmSize ''launchConfig'' (JDict []) = Inr ov
           \<and> map_of base ''capacityPerInstance'' = Some (JInt 1)
           \<and> lc = merge_json (JDict base) ov"
proof (cases location)
  case (JStr l)
  with assms obtain ImageId subscription ov where
    ov: "py_get vmSize ''launchConfig'' (JDict []) = Inr ov"
    and lc: "lc = merge [JDict (azure_base_launch_config subscription rg purpose tags wc l
                                  ImageId vmSize), ov]"
    by (auto simp: azure_launch_config_def bindE_eq_Inr)
  from lc have "lc = merge_json (JDict (azure_base_launch_config subscription rg purpose tags wc l
                                  ImageId vmSize)) ov"
    by (simp only: merge_two)
  with ov azure_base_capacity show ?thesis by blast
qed (use assms in \<open>simp_all add: azure_launch_config_def\<close>)

lemma merge_json_keeps_key:
  assumes "map_of base k = Some v"
  shows "\<exists>l. merge_json (JDict base) (JDict ov) = JDict l
           \<and> map_of l k = Some (case map_of ov k of None \<Rightarrow> v | Some vb \<Rightarrow> merge_json v vb)"
proof -
  obtain l where l: "merge_json (JDict base) (JDict ov) = JDict l"
    by simp
  from map_of_merge_json [OF l, of k] assms l show ?thesis
    by simp
qed

text \<open>
  C3, as the code has it. Every launch configuration that the AWS or the Google
  generator returns has the key \<^verbatim>\<open>capacityPerInstance\<close>, and under an implementation
  other than \<^verbatim>\<open>docker-worker\<close> its value equals 1; the \<^verbatim>\<open>launchConfig\<close> of an
  AWS instance type is merged into the nested launch configuration only. Every launch
  configuration of the Azure generator has the key when the \<^verbatim>\<open>launchConfig\<close> of each
  size is a mapping, and its value is 1 when none of them has that key itself.
\<close>

theorem capacity_per_instance_explicit:
  assumes lc: "lc \<in> set (launch_configs (g env pid pool cfg imgs dflts))"
  shows "(g = get_aws_provider_config \<or> g = get_google_provider_config \<longrightarrow>
            (\<exists>v. field ''capacityPerInstance'' lc = Some v
               \<and> (dict_get cfg ''implementation'' (JStr ''docker-worker'') \<noteq> JStr ''docker-worker''
                    \<longrightarrow> py_eq v (JInt 1))))
       \<and> (g = get_azure_provider_config \<and> map_of cfg ''vmSizes'' = Some (JList sizes)
          \<and> list_all (\<lambda>vmSize. case py_get vmSize ''launchConfig'' (JDict []) of
                                Inr (JDict ov) \<Rightarrow> True | _ \<Rightarrow> False) sizes
            \<longrightarrow> (\<exists>v. field ''capacityPerInstance'' lc = Some v))
       \<and> (g = get_azure_provider_config \<and> map_of cfg ''vmSizes'' = Some (JList sizes)
          \<and> list_all (\<lambda>vmSize. case py_get vmSize ''launchConfig'' (JDict []) of
                                Inr (JDict ov) \<Rightarrow> \<not> has_key ''capacityPerInstance'' ov
                              | _ \<Rightarrow> False) sizes
            \<longrightarrow> field ''capacityPerInstance'' lc = Some (JInt 1))"
proof -
  from launch_configs_member_success [OF lc] obtain r where
    success: "g env pid pool cfg imgs dflts = Inr r"
    by blast
  with lc have lc': "lc \<in> set (launch_configs (Inr r))"
    by simp
  define impl where "impl = dict_get cfg ''implementation'' (JStr ''docker-worker'')"
  have validated: "\<exists>v. field ''capacityPerInstance'' lc = Some v \<and> (impl \<noteq> JStr ''docker-worker'' \<longrightarrow> py_eq v (JInt 1))"
    if valid: "validate_instance_type impl (JDict d) = Inr ()"
      and made: "field ''capacityPerInstance'' lc = Some (dict_get d ''capacityPerInstance'' (JInt 1))"
    for d
    using valid made by (auto simp: validate_instance_type_JDict ne_one_def)
  have aws_google: "\<exists>v. field ''capacityPerInstance'' lc = Some v \<and> (impl \<noteq> JStr ''docker-worker'' \<longrightarrow> py_eq v (JInt 1))"
    if "g = get_aws_provider_config \<or> g = get_google_provider_config"
    using that
  proof
    assume "g = get_aws_provider_config"
    with success have "get_aws_provider_config env pid pool cfg imgs dflts = Inr r" by simp
    from aws_config_origin [OF this lc'] obtain img wc ud spot region sgs zone subnet it where
      valid: "validate_instance_type impl it = Inr ()"
      and made: "aws_launch_config img pid impl wc ud spot (aws_config env) region sgs zone subnet
                   it = Inr (Some lc)"
      unfolding impl_def by blast
    from aws_launch_config_Some [OF made] obtain d where
      d: "it = JDict d"
      "field ''capacityPerInstance'' lc = Some (dict_get d ''capacityPerInstance'' (JInt 1))"
      by (auto simp: field_def)
    from validated [OF valid [unfolded d(1)] d(2)] show ?thesis .
  next
    assume "g = get_google_provider_config"
    with success have "get_google_provider_config env pid pool cfg imgs dflts = Inr r" by simp
    from google_config_origin [OF this lc'] obtain image_name wc region zone it where
      valid: "validate_instance_type impl it = Inr ()"
      and made: "google_launch_config image_name impl wc region zone it = Inr lc"
      unfolding impl_def by blast
    from google_launch_config_result [OF made] obtain d where
      d: "it = JDict d"
      "field ''capacityPerInstance'' lc = Some (dict_get d ''capacityPerInstance'' (JInt 1))"
      by (auto simp: field_def)
    from validated [OF valid [unfolded d(1)] d(2)] show ?thesis .
  qed
  have azure: "\<exists>ov. field ''capacityPerInstance'' lc
                  = Some (case map_of ov ''capacityPerInstance'' of
                            None \<Rightarrow> JInt 1 | Some vb \<Rightarrow> merge_json (JInt 1) vb)
                \<and> P ov"
    if g: "g = get_azure_provider_config"
      and sizes: "map_of cfg ''vmSizes'' = Some (JList sizes)"
      and all: "list_all (\<lambda>vmSize. case py_get vmSize ''launchConfig'' (JDict []) of
                                Inr (JDict ov) \<Rightarrow> P ov | _ \<Rightarrow> False) sizes"
    for P
  proof -
    from g success have "get_azure_provider_config env pid pool cfg imgs dflts = Inr r" by simp
    from azure_config_origin [OF this lc'] sizes
    obtain img rg purpose tags wc location vmSize where
      vmSize: "vmSize \<in> set sizes"
      and made: "azure_launch_config img pid (azure_config env) rg purpose tags wc location vmSize
                   = Inr lc"
      by (auto simp: py_iter_def)
    from azure_launch_config_result [OF made] obtain base ov where
      ov: "py_get vmSize ''launchConfig'' (JDict []) = Inr ov"
      and base: "map_of base ''capacityPerInstance'' = Some (JInt 1)"
      and lc_eq: "lc = merge_json (JDict base) ov"
      by blast
    from all vmSize ov obtain o' where o': "ov = JDict o'" "P o'"
      by (auto simp: list_all_iff split: json.splits)
    from merge_json_keeps_key [OF base, of o'] lc_eq o' show ?thesis
      by (auto simp: field_def)
  qed
  show ?thesis
  proof (intro conjI impI)
    assume "g = get_aws_provider_config \<or> g = get_google_provider_config"
    then show "\<exists>v. field ''capacityPerInstance'' lc = Some v
               \<and> (dict_get cfg ''implementation'' (JStr ''docker-worker'') \<noteq> JStr ''docker-worker''
                    \<longrightarrow> py_eq v (JInt 1))"
      using aws_google unfolding impl_def by simp
  next
    assume "g = get_azure_provider_config \<and> map_of cfg ''vmSizes'' = Some (JList sizes)
          \<and> list_all (\<lambda>vmSize. case py_get vmSize ''launchConfig'' (JDict []) of
                                Inr (JDict ov) \<Rightarrow> True | _ \<Rightarrow> False) sizes"
    with azure [of "\<lambda>_. True"] show "\<exists>v. field ''capacityPerInstance'' lc = Some v"
      by auto
  next
    assume "g = get_azure_provider_config \<and> map_of cfg ''vmSizes'' = Some (JList sizes)
          \<and> list_all (\<lambda>vmSize. case py_get vmSize ''launchConfig'' (JDict []) of
                                Inr (JDict ov) \<Rightarrow> \<not> has_key ''capacityPerInstance'' ov
                              | _ \<Rightarrow> False) sizes"
    with azure [of "\<lambda>ov. \<not> has_key ''capacityPerInstance'' ov"]
    show "field ''capacityPerInstance'' lc = Some (JInt 1)"
      by (auto simp: has_key_def)
  qed
qed

theorem capacity_per_instance_explicit_witness:
  "map (field ''capacityPerInstance'')
     (launch_configs (get_azure_provider_config environment_ex (JStr ''azure'') ''pool''
        (azure_pool_config_ex (JDict [(''vmSize'', JStr ''Standard_F8s_v2'')]))
        worker_images_ex (JDict []))) = [Some (JInt 1)]
   \<and> map (field ''capacityPerInstance'')
     (launch_configs (get_google_provider_config environment_ex (JStr ''google'') ''pool''
        (google_pool_config_ex []) worker_images_ex (JDict []))) = [Some (JInt 1)]"
  using capacity_per_instance_explicit
    [where g = get_azure_provider_config and env = environment_ex and pid = "JStr ''azure''"
       and pool = "''pool''" and imgs = worker_images_ex and dflts = "JDict []"
       and cfg = "azure_pool_config_ex (JDict [(''vmSize'', JStr ''Standard_F8s_v2'')])"
       and sizes = "[JDict [(''vmSize'', JStr ''Standard_F8s_v2'')]]"
       and lc = "hd (launch_configs (get_azure_provider_config environment_ex (JStr ''azure'')
          ''pool'' (azure_pool_config_ex (JDict [(''vmSize'', JStr ''Standard_F8s_v2'')]))
          worker_images_ex (JDict [])))"]
    capacity_per_instance_explicit
    [where g = get_google_provider_config and env = environment_ex and pid = "JStr ''google''"
       and pool = "''pool''" and imgs = worker_images_ex and dflts = "JDict []"
       and cfg = "google_pool_config_ex []"
       and lc = "hd (launch_configs (get_google_provider_config environment_ex (JStr ''google'')
          ''pool'' (google_pool_config_ex []) worker_images_ex (JDict [])))"]
  by (simp add: get_azure_provider_config_def azure_pool_config_ex_def worker_images_ex_def
      environment_ex_def dict_pop_def dict_getitem_def dict_pop_default_def py_get_def
      dict_get_def merge_def py_iter_def has_key_def py_getitem_def lookup_branch_def
      azure_location_loop_def azure_launch_config_def azure_base_launch_config_def py_str_def
      launch_configs_def field_def
      get_google_provider_config_def google_pool_config_ex_def validate_instance_capacity_def
      validate_instance_type_def py_in_def ne_one_def py_eq_def google_region_loop_def
      google_zone_loop_def google_launch_config_def google_disk_def store_disks_def
      py_setitem_def)

text \<open>
  The claim as written fails for the Azure generator, whose default implementation is
  not \<^verbatim>\<open>docker-worker\<close>: the \<^verbatim>\<open>launchConfig\<close> of a size is merged over the whole
  launch configuration and can set \<^verbatim>\<open>capacityPerInstance\<close>.
\<close>

theorem capacity_per_instance_counterexample:
  "\<not> isl (get_azure_provider_config environment_ex (JStr ''azure'') ''pool''
           (azure_pool_config_ex
              (JDict [(''vmSize'', JStr ''Standard_F8s_v2''),
                      (''launchConfig'', JDict [(''capacityPerInstance'', JInt 2)])]))
           worker_images_ex (JDict []))
   \<and> map (field ''capacityPerInstance'')
        (launch_configs (get_azure_provider_config environment_ex (JStr ''azure'') ''pool''
           (azure_pool_config_ex
              (JDict [(''vmSize'', JStr ''Standard_F8s_v2''),
                      (''launchConfig'', JDict [(''capacityPerInstance'', JInt 2)])]))
           worker_images_ex (JDict []))) = [Some (JInt 2)]"
  by (simp add: get_azure_provider_config_def azure_pool_config_ex_def worker_images_ex_def
      environment_ex_def dict_pop_def dict_getitem_def dict_pop_default_def py_get_def
      dict_get_def merge_def py_iter_def has_key_def py_getitem_def lookup_branch_def
      azure_location_loop_def azure_launch_config_def azure_base_launch_config_def py_str_def
      launch_configs_def field_def)

subsection \<open>An error of a generator\<close>

lemma resources_add_new:
  "workerPoolId apwt \<notin> set (map workerPoolId (added res)) \<Longrightarrow>
   resources_add res apwt = Inr (res\<lparr>added := added res @ [apwt]\<rparr>)"
  by (simp add: resources_add_def)

lemma add_pools_stops:
  assumes "list_all2 (\<lambda>w r. make_worker_pool env w imgs dflts = Inr r) pre recs"
    and "make_worker_pool env wp imgs dflts = Inl e"
    and "distinct (map workerPoolId (added res @ recs))"
  shows "add_pools env imgs dflts res (pre @ wp # post)
           = (res\<lparr>added := added res @ recs\<rparr>, Some e)"
  using assms
proof (induction arbitrary: res rule: list_all2_induct)
  case Nil
  then show ?case by simp
next
  case (Cons w pre r recs)
  from Cons.prems(2) have new: "workerPoolId r \<notin> set (map workerPoolId (added res))"
    by auto
  from Cons.prems(2)
  have "distinct (map workerPoolId (added (res\<lparr>added := added res @ [r]\<rparr>) @ recs))"
    by simp
  from Cons.IH [OF Cons.prems(1) this] Cons.hyps(1) resources_add_new [OF new]
  show ?case by simp
qed

text \<open>A second resource with an identifier of one before it ends the run on its own.\<close>

lemma add_pools_repeated_id:
  assumes "make_worker_pool env w imgs dflts = Inr r"
    and "workerPoolId r \<in> set (map workerPoolId (added res))"
  shows "add_pools env imgs dflts res (w # post) = (res, Some RuntimeError)"
  using assms by (simp add: resources_add_def)

lemma make_worker_pool_raises:
  assumes "py_getitem (worker_manager env) ''providers'' = Inr providers"
    and "py_in (provider_id wp) providers = Inr True"
    and "py_index providers (provider_id wp) = Inr provider"
    and "py_getitem provider ''implementation'' = Inr impl"
    and "provider_implementations impl = Inr generator"
    and "generator env (provider_id wp) (pool_id wp) (config wp) imgs dflts = Inl e"
  shows "make_worker_pool env wp imgs dflts = Inl e"
  using assms by (simp add: make_worker_pool_def)

text \<open>
  C1, as the code has it. Nothing catches the error that a provider generator raises
  for a definition: \<^verbatim>\<open>make_worker_pool\<close> raises it. When the definitions before that
  one have given resource records whose identifiers differ from each other and from
  those the collection holds, so that each of them has been added, \<^verbatim>\<open>update_resources\<close>
  ends with that error, having added these records and none for that definition or for
  any after it.
\<close>

theorem generator_error_ends_update_resources:
  assumes gen: "generate_pool_variants worker_pools env = (pre @ wp # post, gen_error)"
    and ok: "list_all2
               (\<lambda>w r. make_worker_pool env w imgs (dict_get yml ''worker-defaults'' JNull) = Inr r)
               pre recs"
    and providers: "py_getitem (worker_manager env) ''providers'' = Inr providers"
    and known: "py_in (provider_id wp) providers = Inr True"
    and provider: "py_index providers (provider_id wp) = Inr provider"
    and impl: "py_getitem provider ''implementation'' = Inr impl"
    and generator: "provider_implementations impl = Inr generator"
    and raises: "generator env (provider_id wp) (pool_id wp) (config wp) imgs
                   (dict_get yml ''worker-defaults'' JNull) = Inl e"
    and ids: "distinct (map workerPoolId (added res @ recs))"
  shows "make_worker_pool env wp imgs (dict_get yml ''worker-defaults'' JNull) = Inl e
       \<and> update_resources res worker_pools imgs yml env
           = (res\<lparr>managed := managed res @ [''WorkerPool=.*''], added := added res @ recs\<rparr>,
              Some e)"
proof -
  have bad: "make_worker_pool env wp imgs (dict_get yml ''worker-defaults'' JNull) = Inl e"
    using providers known provider impl generator raises by (rule make_worker_pool_raises)
  from ids
  have "distinct (map workerPoolId
          (added (res\<lparr>managed := managed res @ [''WorkerPool=.*'']\<rparr>) @ recs))"
    by simp
  from add_pools_stops [OF ok bad this]
  have "add_pools env imgs (dict_get yml ''worker-defaults'' JNull)
          (res\<lparr>managed := managed res @ [''WorkerPool=.*'']\<rparr>) (pre @ wp # post)
        = (res\<lparr>managed := managed res @ [''WorkerPool=.*''], added := added res @ recs\<rparr>, Some e)"
    by simp
  with gen bad show ?thesis
    by (simp add: update_resources_def Let_def)
qed

theorem generator_error_ends_update_resources_witness:
  "make_worker_pool environment_ex broken_pool_ex worker_images_ex JNull
     = Inl (KeyError ''regions'')
   \<and> update_resources \<lparr>managed = [], added = []\<rparr> [static_pool_ex, broken_pool_ex]
       worker_images_ex [] environment_ex
     = (\<lparr>managed = [''WorkerPool=.*''], added = [static_resource_ex]\<rparr>,
        Some (KeyError ''regions''))"
  using generator_error_ends_update_resources
    [where worker_pools = "[static_pool_ex, broken_pool_ex]" and env = environment_ex
       and pre = "[static_pool_ex]" and wp = broken_pool_ex and post = "[]"
       and gen_error = None and imgs = worker_images_ex and yml = "[]"
       and recs = "[static_resource_ex]"
       and providers = "JDict [(''aws'', JDict [(''implementation'', JStr ''aws'')]),
                 (''azure'', JDict [(''implementation'', JStr ''azure'')]),
                 (''google'', JDict [(''implementation'', JStr ''google'')])]"
       and provider = "JDict [(''implementation'', JStr ''aws'')]" and impl = "JStr ''aws''"
       and generator = get_aws_provider_config and e = "KeyError ''regions''"
       and res = "\<lparr>managed = [], added = []\<rparr>"]
  by (simp add: update_resources_def broken_pool_ex_def static_pool_ex_def expand_variant_def
      variant_attributes_def update_config_def update_config_key_def has_key_def dict_get_def
      make_worker_pool_def environment_ex_def py_getitem_def dict_getitem_def py_in_def
      py_index_def provider_implementations_def get_aws_provider_config_def dict_pop_def
      static_resource_ex_def resources_add_def)

text \<open>
  The claim as written fails: the pool after the one whose generator raises is an
  unrelated pool that needs no generator, and no resource record is produced for it.
\<close>

theorem generator_error_counterexample:
  "make_worker_pool environment_ex static_pool_ex worker_images_ex JNull
     = Inr static_resource_ex
   \<and> update_resources \<lparr>managed = [], added = []\<rparr> [broken_pool_ex, static_pool_ex]
       worker_images_ex [] environment_ex
     = (\<lparr>managed = [''WorkerPool=.*''], added = []\<rparr>, Some (KeyError ''regions''))"
  by (simp add: update_resources_def broken_pool_ex_def static_pool_ex_def expand_variant_def
      variant_attributes_def update_config_def update_config_key_def has_key_def dict_get_def
      make_worker_pool_def environment_ex_def py_getitem_def dict_getitem_def py_in_def
      py_index_def provider_implementations_def get_aws_provider_config_def dict_pop_def
      static_resource_ex_def resources_add_def)

subsection \<open>The variant expander\<close>

lemma update_config_key_spec:
  assumes "update_config_key name attributes key cfg = Inr cfg'"
  shows "(has_key key cfg \<longrightarrow>
            (\<exists>field v. map_of cfg key = Some field \<and>
               evaluate_keyed_by field name attributes = Inr v \<and>
               map_of cfg' key = (if v \<noteq> JNull then Some v else None)))
       \<and> (\<not> has_key key cfg \<longrightarrow> cfg' = cfg)
       \<and> (\<forall>k. k \<noteq> key \<longrightarrow> map_of cfg' k = map_of cfg k)"
proof (cases "has_key key cfg")
  case False
  with assms show ?thesis by (simp add: update_config_key_def)
next
  case True
  then obtain field where field: "map_of cfg key = Some field"
    by (auto simp: has_key_def)
  with True assms obtain v where
    v: "evaluate_keyed_by field name attributes = Inr v"
    and res: "cfg' = (if v \<noteq> JNull then AList.update key v cfg else AList.delete key cfg)"
    by (cases "evaluate_keyed_by field name attributes")
       (auto simp: update_config_key_def dict_getitem_def split: if_splits)
  from res have "map_of cfg' key = (if v \<noteq> JNull then Some v else None)"
    by (simp add: AList.update_conv' AList.delete_conv')
  moreover from res have "\<forall>k. k \<noteq> key \<longrightarrow> map_of cfg' k = map_of cfg k"
    by (simp add: AList.update_conv' AList.delete_conv')
  ultimately show ?thesis using True field v by simp
qed

lemma update_config_loop_spec:
  assumes "distinct keys" and "update_config_loop name attributes keys cfg = Inr cfg'"
  shows "(k \<in> set keys \<and> has_key k cfg \<longrightarrow>
            (\<exists>field v. map_of cfg k = Some field \<and>
               evaluate_keyed_by field name attributes = Inr v \<and>
               map_of cfg' k = (if v \<noteq> JNull then Some v else None)))
       \<and> (\<not> (k \<in> set keys \<and> has_key k cfg) \<longrightarrow> map_of cfg' k = map_of cfg k)"
  using assms
proof (induction keys arbitrary: cfg)
  case Nil
  then show ?case by simp
next
  case (Cons key keys)
  from Cons.prems obtain cfg1 where
    step: "update_config_key name attributes key cfg = Inr cfg1"
    and rest: "update_config_loop name attributes keys cfg1 = Inr cfg'"
    by (auto simp: bindE_eq_Inr)
  from Cons.prems have dist: "distinct keys" and notin: "key \<notin> set keys" by simp_all
  note IH = Cons.IH [OF dist rest]
  note S = update_config_key_spec [OF step]
  show ?case
  proof (cases "k = key")
    case True
    with notin have "map_of cfg' k = map_of cfg1 k" using IH by simp
    with S True show ?thesis by (auto simp: has_key_def)
  next
    case False
    with S have "map_of cfg1 k = map_of cfg k" by simp
    with IH False show ?thesis by (simp add: has_key_def)
  qed
qed

text \<open>
  C7. When a variant is expanded, each of the fields \<^verbatim>\<open>image\<close>, \<^verbatim>\<open>maxCapacity\<close>,
  \<^verbatim>\<open>minCapacity\<close> and \<^verbatim>\<open>security\<close> that the raw configuration has is resolved by
  the keyed-by resolver under the expanded name and the variant's attribute context; the
  expanded configuration holds the resolved value, or no such key when the value is
  \<^verbatim>\<open>None\<close>. Every other key has the value it had.
\<close>

theorem expand_variant_resolves_config_fields:
  assumes "expand_variant wp environment variant = Inr x"
  shows "\<exists>name. format_template (pool_id wp) variant = Inr name \<and>
     (\<forall>key.
        (key \<in> {''image'', ''maxCapacity'', ''minCapacity'', ''security''} \<and> has_key key (config wp)
           \<longrightarrow> (\<exists>field v. map_of (config wp) key = Some field \<and>
                  evaluate_keyed_by field name (variant_attributes environment variant) = Inr v \<and>
                  map_of (config x) key = (if v \<noteq> JNull then Some v else None)))
      \<and> (\<not> (key \<in> {''image'', ''maxCapacity'', ''minCapacity'', ''security''}
               \<and> has_key key (config wp))
           \<longrightarrow> map_of (config x) key = map_of (config wp) key))"
proof -
  from assms obtain name pid cfg' where
    name: "format_template (pool_id wp) variant = Inr name"
    and upd: "update_config (config wp) name (variant_attributes environment variant) = Inr cfg'"
    and x: "x = wp\<lparr>pool_id := name, provider_id := pid, config := cfg', variants := [[]]\<rparr>"
    by (auto simp: expand_variant_def bindE_eq_Inr Let_def)
  have cfg: "config x = cfg'" using x by simp
  have loop: "update_config_loop name (variant_attributes environment variant)
      [''image'', ''maxCapacity'', ''minCapacity'', ''security''] (config wp) = Inr cfg'"
    using upd by (simp add: update_config_def)
  have dist: "distinct [''image'', ''maxCapacity'', ''minCapacity'', ''security'']" by simp
  show ?thesis
    using name update_config_loop_spec [OF dist loop] by (simp add: cfg)
qed

theorem expand_variant_resolves_config_fields_witness:
  "expand_variant pool_ex environment_ex [(''letter'', JStr ''b'')]
     = Inr (pool_ex\<lparr>pool_id := ''pool-b'',
                    config := [(''maxCapacity'', JInt 5), (''workerType'', JStr ''t'')],
                    variants := [[]]\<rparr>)
   \<and> format_template (pool_id pool_ex) [(''letter'', JStr ''b'')] = Inr ''pool-b''
   \<and> has_key ''image'' (config pool_ex)
   \<and> map_of [(''maxCapacity'', JInt 5), (''workerType'', JStr ''t'')] ''image'' = None
   \<and> map_of [(''maxCapacity'', JInt 5), (''workerType'', JStr ''t'')] ''workerType''
       = map_of (config pool_ex) ''workerType''"
  using expand_variant_resolves_config_fields
    [of pool_ex environment_ex "[(''letter'', JStr ''b'')]"
      "pool_ex\<lparr>pool_id := ''pool-b'',
                config := [(''maxCapacity'', JInt 5), (''workerType'', JStr ''t'')],
                variants := [[]]\<rparr>"]
  by (simp add: pool_ex_def expand_variant_def variant_attributes_def update_config_def
      update_config_key_def has_key_def dict_getitem_def lookup_branch_def format_field_def
      py_str_def)

lemma variants_loop_None:
  "variants_loop wp environment vs = (out, None) \<Longrightarrow>
   list_all2 (\<lambda>v x. expand_variant wp environment v = Inr x) vs out"
proof (induction vs arbitrary: out)
  case Nil
  then show ?case by simp
next
  case (Cons v vs)
  then show ?case
    by (cases "expand_variant wp environment v"; cases "variants_loop wp environment vs") auto
qed

lemma generate_pool_variants_None:
  "generate_pool_variants wps environment = (out, None) \<Longrightarrow>
   list_all2 (\<lambda>p x. expand_variant (fst p) environment (snd p) = Inr x)
     (concat (map (\<lambda>wp. map (Pair wp) (variants wp)) wps)) out"
proof (induction wps arbitrary: out)
  case Nil
  then show ?case by simp
next
  case (Cons wp wps)
  obtain xs r where xs: "variants_loop wp environment (variants wp) = (xs, r)"
    by (cases "variants_loop wp environment (variants wp)")
  obtain ys r' where ys: "generate_pool_variants wps environment = (ys, r')"
    by (cases "generate_pool_variants wps environment")
  from Cons.prems xs ys have r: "r = None" and r': "r' = None" and out: "out = xs @ ys"
    by (auto split: option.splits)
  have "list_all2 (\<lambda>p x. expand_variant (fst p) environment (snd p) = Inr x)
          (map (Pair wp) (variants wp)) xs"
    using variants_loop_None [OF xs [unfolded r]] by (simp add: list_all2_map1)
  moreover have "list_all2 (\<lambda>p x. expand_variant (fst p) environment (snd p) = Inr x)
          (concat (map (\<lambda>wp. map (Pair wp) (variants wp)) wps)) ys"
    using Cons.IH ys r' by simp
  ultimately show ?case
    by (simp add: out list_all2_appendI)
qed

lemma expand_variant_fields:
  assumes "expand_variant wp environment variant = Inr x"
  shows "format_template (pool_id wp) variant = Inr (pool_id x)
       \<and> evaluate_keyed_by (provider_id wp) (pool_id x) (variant_attributes environment variant)
            = Inr (provider_id x)
       \<and> update_config (config wp) (pool_id x) (variant_attributes environment variant)
            = Inr (config x)
       \<and> variants x = [[]]
       \<and> description x = description wp \<and> owner x = owner wp
       \<and> email_on_error x = email_on_error wp"
  using assms by (auto simp: expand_variant_def bindE_eq_Inr Let_def)

lemma map_of_foldl_update:
  "map_of (foldl (\<lambda>acc kv. AList.update (fst kv) (snd kv) acc) init d) k =
     (case map_of (rev d) k of Some v \<Rightarrow> Some v | None \<Rightarrow> map_of init k)"
  by (induction d arbitrary: init) (auto simp: AList.update_conv' map_add_def split: option.splits)

lemma map_of_rev_distinct: "distinct (map fst d) \<Longrightarrow> map_of (rev d) = map_of d"
proof (induction d)
  case Nil
  show ?case by simp
next
  case (Cons kv d)
  then have absent: "map_of d (fst kv) = None" and IH: "map_of (rev d) = map_of d"
    by (simp_all add: map_of_eq_None_iff)
  show ?case
  proof
    fix k
    show "map_of (rev (kv # d)) k = map_of (kv # d) k"
      using absent IH by (cases kv) (auto simp: map_add_def split: option.splits)
  qed
qed

lemma variant_attributes_lookup:
  "distinct (map fst variant) \<Longrightarrow>
   map_of (variant_attributes environment variant) k =
     (case map_of variant k of
        Some v \<Rightarrow> Some v
      | None \<Rightarrow> if k = ''environment'' then Some (environment_obj environment) else None)"
  by (auto simp: variant_attributes_def map_of_foldl_update map_of_rev_distinct
      split: option.splits)

text \<open>
  C4. When the expander runs to its end, it has yielded exactly one definition for
  each variant of each raw definition, in that order. The identifier of each is its
  template formatted with the variant's attributes, its provider and its configuration
  are resolved under the context of that variant, which holds the variant's attributes
  and, under \<^verbatim>\<open>environment\<close>, the environment unless the variant has that key; and
  its list of variants is the single empty variant.
\<close>

theorem generate_pool_variants_one_per_variant:
  assumes "generate_pool_variants worker_pools environment = (out, None)"
  shows "list_all2
           (\<lambda>p x. format_template (pool_id (fst p)) (snd p) = Inr (pool_id x)
              \<and> evaluate_keyed_by (provider_id (fst p)) (pool_id x)
                   (variant_attributes environment (snd p)) = Inr (provider_id x)
              \<and> update_config (config (fst p)) (pool_id x)
                   (variant_attributes environment (snd p)) = Inr (config x)
              \<and> variants x = [[]]
              \<and> description x = description (fst p) \<and> owner x = owner (fst p)
              \<and> email_on_error x = email_on_error (fst p))
           (concat (map (\<lambda>wp. map (Pair wp) (variants wp)) worker_pools)) out
       \<and> (\<forall>variant k. distinct (map fst variant) \<longrightarrow>
            map_of (variant_attributes environment variant) k =
              (case map_of variant k of
                 Some v \<Rightarrow> Some v
               | None \<Rightarrow> if k = ''environment'' then Some (environment_obj environment)
                         else None))"
proof -
  have "list_all2 (\<lambda>p x. expand_variant (fst p) environment (snd p) = Inr x)
          (concat (map (\<lambda>wp. map (Pair wp) (variants wp)) worker_pools)) out"
    using assms by (rule generate_pool_variants_None)
  then show ?thesis
    by (auto elim!: list_all2_mono dest: expand_variant_fields simp: variant_attributes_lookup)
qed

theorem generate_pool_variants_one_per_variant_witness:
  "generate_pool_variants [pool_ex] environment_ex
     = ([pool_ex\<lparr>pool_id := ''pool-a'',
                 config := [(''image'', JStr ''image-a''), (''maxCapacity'', JInt 5),
                            (''workerType'', JStr ''t'')],
                 variants := [[]]\<rparr>,
         pool_ex\<lparr>pool_id := ''pool-b'',
                 config := [(''maxCapacity'', JInt 5), (''workerType'', JStr ''t'')],
                 variants := [[]]\<rparr>], None)
   \<and> format_template ''pool-{letter}'' [(''letter'', JStr ''a'')] = Inr ''pool-a''
   \<and> format_template ''pool-{letter}'' [(''letter'', JStr ''b'')] = Inr ''pool-b''
   \<and> map_of (variant_attributes environment_ex [(''letter'', JStr ''a'')]) ''letter''
       = Some (JStr ''a'')
   \<and> map_of (variant_attributes environment_ex [(''letter'', JStr ''a'')]) ''environment''
       = Some (environment_obj environment_ex)"
  using generate_pool_variants_one_per_variant
    [of "[pool_ex]" environment_ex
      "[pool_ex\<lparr>pool_id := ''pool-a'',
                 config := [(''image'', JStr ''image-a''), (''maxCapacity'', JInt 5),
                            (''workerType'', JStr ''t'')],
                 variants := [[]]\<rparr>,
         pool_ex\<lparr>pool_id := ''pool-b'',
                 config := [(''maxCapacity'', JInt 5), (''workerType'', JStr ''t'')],
                 variants := [[]]\<rparr>]"]
  by (simp add: pool_ex_def expand_variant_def variant_attributes_def update_config_def
      update_config_key_def has_key_def dict_getitem_def lookup_branch_def format_field_def
      py_str_def)

subsection \<open>Variant lists\<close>

text \<open>
  C9, as the code has it. A definition whose list of variants is empty yields no
  expanded definition; the single default variant is the one-element list of the empty
  attribute set, which yields exactly the one definition its expansion gives.
\<close>

theorem empty_variants_yield_nothing:
  "(variants wp = [] \<longrightarrow> generate_pool_variants [wp] environment = ([], None))
   \<and> (variants wp = [[]] \<and> expand_variant wp environment [] = Inr x
        \<longrightarrow> generate_pool_variants [wp] environment = ([x], None))"
  by simp

theorem empty_variants_yield_nothing_witness:
  "generate_pool_variants [pool_ex\<lparr>variants := []\<rparr>] environment_ex = ([], None)
   \<and> generate_pool_variants [pool_ex\<lparr>pool_id := ''pool'', variants := [[]]\<rparr>] environment_ex
       = ([pool_ex\<lparr>pool_id := ''pool'', config := [(''maxCapacity'', JInt 5), (''workerType'', JStr ''t'')],
                    variants := [[]]\<rparr>], None)"
  using empty_variants_yield_nothing [of "pool_ex\<lparr>variants := []\<rparr>" environment_ex]
    empty_variants_yield_nothing [of "pool_ex\<lparr>pool_id := ''pool'', variants := [[]]\<rparr>" environment_ex
      "pool_ex\<lparr>pool_id := ''pool'', config := [(''maxCapacity'', JInt 5), (''workerType'', JStr ''t'')],
                    variants := [[]]\<rparr>"]
  by (simp add: pool_ex_def expand_variant_def variant_attributes_def update_config_def
      update_config_key_def has_key_def dict_getitem_def lookup_branch_def)

text \<open>The claim as written fails: an empty list of variants gives no definition at all.\<close>

theorem empty_variants_counterexample:
  "fst (generate_pool_variants [pool_ex\<lparr>variants := []\<rparr>] environment_ex) = []"
  by simp

end
